theory Spec2Isabelle
  imports Complex_Main
begin

section \<open>Python values\<close>

text \<open>
  The dashboard script works on the values that JSON parsing and the secrets store
  hand to it: \<^verbatim>\<open>None\<close>, booleans, numbers, strings, lists and dictionaries with
  string keys. Numbers are rationals here (every integer and every finite float is one),
  and \<^verbatim>\<open>/\<close> is exact division: the rounding of a float quotient is not modelled.
  A string is a list of Isabelle characters, and the case mappings below are the ASCII
  ones. A dictionary is an association list looked up with \<^const>\<open>map_of\<close>.
\<close>

datatype pyval =
    PNone
  | PBool bool
  | PNum rat
  | PStr string
  | PList "pyval list"
  | PDict "(string \<times> pyval) list"

text \<open>The exceptions of the modelled code paths.\<close>

datatype pyerr =
    AttributeError
  | TypeError
  | IndexError
  | ValueError
  | JSONDecodeError
  | RequestException

text \<open>Truth value testing: \<^verbatim>\<open>if v:\<close> and \<^verbatim>\<open>not v\<close>.\<close>

fun truthy :: "pyval \<Rightarrow> bool" where
  "truthy PNone = False"
| "truthy (PBool b) = b"
| "truthy (PNum n) = (n \<noteq> 0)"
| "truthy (PStr s) = (s \<noteq> [])"
| "truthy (PList xs) = (xs \<noteq> [])"
| "truthy (PDict kvs) = (kvs \<noteq> [])"

text \<open>\<^verbatim>\<open>d.get(k, default)\<close> on a dictionary.\<close>

definition dict_get :: "(string \<times> pyval) list \<Rightarrow> string \<Rightarrow> pyval \<Rightarrow> pyval" where
  "dict_get d k dflt = (case map_of d k of Some v \<Rightarrow> v | None \<Rightarrow> dflt)"

subsection \<open>String methods\<close>

definition upper_letters :: string where
  "upper_letters = ''ABCDEFGHIJKLMNOPQRSTUVWXYZ''"

definition lower_letters :: string where
  "lower_letters = ''abcdefghijklmnopqrstuvwxyz''"

definition lower_char :: "char \<Rightarrow> char" where
  "lower_char c = (case map_of (zip upper_letters lower_letters) c of Some d \<Rightarrow> d | None \<Rightarrow> c)"

definition upper_char :: "char \<Rightarrow> char" where
  "upper_char c = (case map_of (zip lower_letters upper_letters) c of Some d \<Rightarrow> d | None \<Rightarrow> c)"

text \<open>\<^verbatim>\<open>s.lower()\<close>.\<close>

definition py_lower :: "string \<Rightarrow> string" where
  "py_lower s = map lower_char s"

text \<open>\<^verbatim>\<open>s.capitalize()\<close>: the first character in upper case, the rest in lower case.\<close>

fun py_capitalize :: "string \<Rightarrow> string" where
  "py_capitalize [] = []"
| "py_capitalize (c # cs) = upper_char c # map lower_char cs"

text \<open>\<^verbatim>\<open>s.split(c)\<close> for a one-character separator: never the empty list.\<close>

fun py_split :: "char \<Rightarrow> string \<Rightarrow> string list" where
  "py_split c [] = [[]]"
| "py_split c (x # xs) =
     (if x = c then [] # py_split c xs
      else (case py_split c xs of
              [] \<Rightarrow> [[x]]
            | w # ws \<Rightarrow> (x # w) # ws))"

section \<open>The sender's first name\<close>

text \<open>
  \<^verbatim>\<open>
  def get_sender_name(email):
      try:
          local_part = email.split('@')[0]
          first_name = local_part[:-1] if len(local_part) > 1 else local_part
          return first_name.capitalize()
      except:
          return "Active Impact"
  \<close>
  \<open>sender_first_name\<close> is the body of the \<^verbatim>\<open>try\<close>; only a string has
  \<^verbatim>\<open>split\<close>, and indexing the split at 0 raises on an empty list.
\<close>

definition sender_first_name :: "pyval \<Rightarrow> pyerr + string" where
  "sender_first_name email =
     (case email of
        PStr s \<Rightarrow>
          (case py_split (CHR ''@'') s of
             [] \<Rightarrow> Inl IndexError
           | local_part # _ \<Rightarrow>
               Inr (py_capitalize
                     (if length local_part > 1 then butlast local_part else local_part)))
      | _ \<Rightarrow> Inl AttributeError)"

definition get_sender_name :: "pyval \<Rightarrow> string" where
  "get_sender_name email =
     (case sender_first_name email of
        Inr first_name \<Rightarrow> first_name
      | Inl _ \<Rightarrow> ''Active Impact'')"

text \<open>\<^verbatim>\<open>sep.join(xs)\<close>.\<close>

fun py_join :: "string \<Rightarrow> string list \<Rightarrow> string" where
  "py_join sep [] = []"
| "py_join sep [x] = x"
| "py_join sep (x # y # ys) = x @ sep @ py_join sep (y # ys)"

text \<open>\<^verbatim>\<open>needle in haystack\<close> on strings.\<close>

fun py_in :: "string \<Rightarrow> string \<Rightarrow> bool" where
  "py_in needle [] = (needle = [])"
| "py_in needle (c # cs) = (take (length needle) (c # cs) = needle \<or> py_in needle cs)"

text \<open>
  \<^verbatim>\<open>str(v)\<close>: a string is its own text; for every other value of the model
  \<^verbatim>\<open>str\<close> is \<^verbatim>\<open>repr\<close>, whose formatting of numbers and containers is a
  parameter of the functions that call it.
\<close>

definition py_str :: "(pyval \<Rightarrow> string) \<Rightarrow> pyval \<Rightarrow> string" where
  "py_str repr v = (case v of PStr s \<Rightarrow> s | _ \<Rightarrow> repr v)"

section \<open>Custom fields of a lead\<close>

text \<open>
  \<^verbatim>\<open>
  def get_custom_field(lead_details, field_name):
      custom_fields = lead_details.get("custom_fields", [])
      if not custom_fields:
          return ""
      if isinstance(custom_fields, list):
          for field in custom_fields:
              if isinstance(field, dict) and field.get("name") == field_name:
                  if "computed_value" in field:
                      computed_value = field.get("computed_value")
                      if isinstance(computed_value, list):
                          return ", ".join(str(item) for item in computed_value)
                      return computed_value
                  return field.get("value", "")
      elif isinstance(custom_fields, dict):
          return custom_fields.get(field_name, "")
      return ""
  \<close>
  \<open>get_custom_field_loop\<close> is the \<^verbatim>\<open>for\<close> loop together with the final
  \<^verbatim>\<open>return ""\<close> that a list without a matching field falls through to.
\<close>

fun get_custom_field_loop :: "(pyval \<Rightarrow> string) \<Rightarrow> pyval list \<Rightarrow> string \<Rightarrow> pyval" where
  "get_custom_field_loop repr [] field_name = PStr ''''"
| "get_custom_field_loop repr (field # fields) field_name =
     (case field of
        PDict d \<Rightarrow>
          (if dict_get d ''name'' PNone = PStr field_name then
             (case map_of d ''computed_value'' of
                Some computed_value \<Rightarrow>
                  (case computed_value of
                     PList items \<Rightarrow> PStr (py_join '', '' (map (py_str repr) items))
                   | _ \<Rightarrow> computed_value)
              | None \<Rightarrow> dict_get d ''value'' (PStr ''''))
           else get_custom_field_loop repr fields field_name)
      | _ \<Rightarrow> get_custom_field_loop repr fields field_name)"

definition get_custom_field :: "(pyval \<Rightarrow> string) \<Rightarrow> (string \<times> pyval) list \<Rightarrow> string \<Rightarrow> pyval" where
  "get_custom_field repr lead_details field_name =
     (let custom_fields = dict_get lead_details ''custom_fields'' (PList [])
      in if \<not> truthy custom_fields then PStr ''''
         else (case custom_fields of
                 PList fields \<Rightarrow> get_custom_field_loop repr fields field_name
               | PDict d \<Rightarrow> dict_get d field_name (PStr '''')
               | _ \<Rightarrow> PStr ''''))"

text \<open>
  The extraction as the specification words it: the first field dictionary of that
  name, its computed value when it has one (a list joined with commas), else its raw
  value, else the empty string; in a mapping the value stored under the name; the empty
  string for an absent or empty container.
\<close>

definition field_named :: "string \<Rightarrow> pyval \<Rightarrow> bool" where
  "field_named field_name field =
     (case field of PDict d \<Rightarrow> map_of d ''name'' = Some (PStr field_name) | _ \<Rightarrow> False)"

definition field_display :: "(pyval \<Rightarrow> string) \<Rightarrow> pyval \<Rightarrow> pyval" where
  "field_display repr field =
     (case field of
        PDict d \<Rightarrow>
          (case map_of d ''computed_value'' of
             Some (PList items) \<Rightarrow> PStr (py_join '', '' (map (py_str repr) items))
           | Some computed_value \<Rightarrow> computed_value
           | None \<Rightarrow> (case map_of d ''value'' of Some v \<Rightarrow> v | None \<Rightarrow> PStr ''''))
      | _ \<Rightarrow> PStr '''')"

definition custom_field_spec :: "(pyval \<Rightarrow> string) \<Rightarrow> (string \<times> pyval) list \<Rightarrow> string \<Rightarrow> pyval" where
  "custom_field_spec repr lead_details field_name =
     (case map_of lead_details ''custom_fields'' of
        Some (PList fields) \<Rightarrow>
          (case find (field_named field_name) fields of
             Some field \<Rightarrow> field_display repr field
           | None \<Rightarrow> PStr '''')
      | Some (PDict d) \<Rightarrow> (case map_of d field_name of Some v \<Rightarrow> v | None \<Rightarrow> PStr '''')
      | _ \<Rightarrow> PStr '''')"

section \<open>The source of a lead\<close>

text \<open>\<^verbatim>\<open>v.lower()\<close>: only a string has the method.\<close>

definition str_lower :: "pyval \<Rightarrow> pyerr + string" where
  "str_lower v = (case v of PStr s \<Rightarrow> Inr (py_lower s) | _ \<Rightarrow> Inl AttributeError)"

text \<open>
  \<^verbatim>\<open>for x in v\<close>: the elements of a list, the characters of a string, the keys of a
  dictionary; nothing else of the model is iterable.
\<close>

definition py_iter :: "pyval \<Rightarrow> pyerr + pyval list" where
  "py_iter v =
     (case v of
        PList xs \<Rightarrow> Inr xs
      | PStr s \<Rightarrow> Inr (map (\<lambda>c. PStr [c]) s)
      | PDict kvs \<Rightarrow> Inr (map (\<lambda>kv. PStr (fst kv)) kvs)
      | _ \<Rightarrow> Inl TypeError)"

text \<open>
  \<^verbatim>\<open>
  def get_lead_source(lead_details):
      tags = lead_details.get("tags", [])
      if any("form" in tag.lower() for tag in tags):
          return "Form Submission"
      source = lead_details.get("source", {})
      if isinstance(source, dict) and source.get("name"):
          source_name = source.get("name", "").lower()
          if "form" in source_name or "website" in source_name or "submission" in source_name:
              return "Form Submission"
      source_info = get_custom_field(lead_details, "Source")
      if source_info and ("form" in source_info.lower() or "website" in source_info.lower()):
          return "Form Submission"
      custom_fields = lead_details.get("custom_fields", [])
      if isinstance(custom_fields, list) and len(custom_fields) > 5:
          filled_fields = sum(1 for field in custom_fields
                              if isinstance(field, dict) and field.get("value"))
          if filled_fields > 5:
              return "Form Submission"
      form_indicator_fields = ["Revenue Model", "Last year's revenue",
                               "Number of full time employees"]
      if any(get_custom_field(lead_details, field) for field in form_indicator_fields):
          return "Form Submission"
      return "Manually Added"
  \<close>
  Each check is a definition of its own, in the order of the source. A check that calls
  \<^verbatim>\<open>lower\<close> on a value that is not a string raises, and the function has no
  handler: the exception is the result \<open>Inl\<close>.
\<close>

fun any_tag_form :: "pyval list \<Rightarrow> pyerr + bool" where
  "any_tag_form [] = Inr False"
| "any_tag_form (tag # tags) =
     (case str_lower tag of
        Inl e \<Rightarrow> Inl e
      | Inr t \<Rightarrow> if py_in ''form'' t then Inr True else any_tag_form tags)"

definition source_name_check :: "(string \<times> pyval) list \<Rightarrow> pyerr + bool" where
  "source_name_check lead_details =
     (case dict_get lead_details ''source'' (PDict []) of
        PDict source \<Rightarrow>
          (if truthy (dict_get source ''name'' PNone) then
             (case str_lower (dict_get source ''name'' (PStr '''')) of
                Inl e \<Rightarrow> Inl e
              | Inr source_name \<Rightarrow>
                  Inr (py_in ''form'' source_name \<or> py_in ''website'' source_name
                       \<or> py_in ''submission'' source_name))
           else Inr False)
      | _ \<Rightarrow> Inr False)"

definition source_field_check :: "(pyval \<Rightarrow> string) \<Rightarrow> (string \<times> pyval) list \<Rightarrow> pyerr + bool" where
  "source_field_check repr lead_details =
     (let source_info = get_custom_field repr lead_details ''Source''
      in if truthy source_info then
           (case str_lower source_info of
              Inl e \<Rightarrow> Inl e
            | Inr s \<Rightarrow> Inr (py_in ''form'' s \<or> py_in ''website'' s))
         else Inr False)"

definition field_filled :: "pyval \<Rightarrow> bool" where
  "field_filled field = (case field of PDict d \<Rightarrow> truthy (dict_get d ''value'' PNone) | _ \<Rightarrow> False)"

definition filled_fields_check :: "(string \<times> pyval) list \<Rightarrow> bool" where
  "filled_fields_check lead_details =
     (case dict_get lead_details ''custom_fields'' (PList []) of
        PList custom_fields \<Rightarrow>
          length custom_fields > 5 \<and> length (filter field_filled custom_fields) > 5
      | _ \<Rightarrow> False)"

definition form_indicator_fields :: "string list" where
  "form_indicator_fields =
     [''Revenue Model'', ''Last year's revenue'', ''Number of full time employees'']"

definition form_indicator_check :: "(pyval \<Rightarrow> string) \<Rightarrow> (string \<times> pyval) list \<Rightarrow> bool" where
  "form_indicator_check repr lead_details =
     list_ex (\<lambda>field. truthy (get_custom_field repr lead_details field)) form_indicator_fields"

definition get_lead_source :: "(pyval \<Rightarrow> string) \<Rightarrow> (string \<times> pyval) list \<Rightarrow> pyerr + string" where
  "get_lead_source repr lead_details =
     (case py_iter (dict_get lead_details ''tags'' (PList [])) of
        Inl e \<Rightarrow> Inl e
      | Inr tags \<Rightarrow>
     (case any_tag_form tags of
        Inl e \<Rightarrow> Inl e
      | Inr True \<Rightarrow> Inr ''Form Submission''
      | Inr False \<Rightarrow>
     (case source_name_check lead_details of
        Inl e \<Rightarrow> Inl e
      | Inr True \<Rightarrow> Inr ''Form Submission''
      | Inr False \<Rightarrow>
     (case source_field_check repr lead_details of
        Inl e \<Rightarrow> Inl e
      | Inr True \<Rightarrow> Inr ''Form Submission''
      | Inr False \<Rightarrow>
          (if filled_fields_check lead_details then Inr ''Form Submission''
           else if form_indicator_check repr lead_details then Inr ''Form Submission''
           else Inr ''Manually Added'')))))"

text \<open>
  The conditions of the classification, each as a predicate on the lead: the three the
  specification names, and the two further ones the source checks.
\<close>

definition mentions :: "string \<Rightarrow> string \<Rightarrow> bool" where
  "mentions word s = py_in word (py_lower s)"

definition tag_mentions_form :: "(string \<times> pyval) list \<Rightarrow> bool" where
  "tag_mentions_form lead_details =
     (case py_iter (dict_get lead_details ''tags'' (PList [])) of
        Inr tags \<Rightarrow> list_ex (\<lambda>tag. case tag of PStr t \<Rightarrow> mentions ''form'' t | _ \<Rightarrow> False) tags
      | Inl _ \<Rightarrow> False)"

definition source_name_mentions_form :: "(string \<times> pyval) list \<Rightarrow> bool" where
  "source_name_mentions_form lead_details =
     (case map_of lead_details ''source'' of
        Some (PDict source) \<Rightarrow>
          (case map_of source ''name'' of
             Some (PStr n) \<Rightarrow>
               mentions ''form'' n \<or> mentions ''website'' n \<or> mentions ''submission'' n
           | _ \<Rightarrow> False)
      | _ \<Rightarrow> False)"

definition many_fields_populated :: "(string \<times> pyval) list \<Rightarrow> bool" where
  "many_fields_populated lead_details =
     (case map_of lead_details ''custom_fields'' of
        Some (PList custom_fields) \<Rightarrow> 5 < length (filter field_filled custom_fields)
      | _ \<Rightarrow> False)"

definition source_field_mentions_form :: "(pyval \<Rightarrow> string) \<Rightarrow> (string \<times> pyval) list \<Rightarrow> bool" where
  "source_field_mentions_form repr lead_details =
     (case get_custom_field repr lead_details ''Source'' of
        PStr s \<Rightarrow> mentions ''form'' s \<or> mentions ''website'' s
      | _ \<Rightarrow> False)"

definition indicator_field_present :: "(pyval \<Rightarrow> string) \<Rightarrow> (string \<times> pyval) list \<Rightarrow> bool" where
  "indicator_field_present repr lead_details =
     (\<exists>field \<in> set form_indicator_fields. truthy (get_custom_field repr lead_details field))"

text \<open>
  The leads the function returns on: tags that are a list of strings, and a source name
  and a \<open>Source\<close> field that are strings whenever they are not falsy.
\<close>

definition is_str :: "pyval \<Rightarrow> bool" where
  "is_str v = (case v of PStr _ \<Rightarrow> True | _ \<Rightarrow> False)"

definition lead_well_typed :: "(pyval \<Rightarrow> string) \<Rightarrow> (string \<times> pyval) list \<Rightarrow> bool" where
  "lead_well_typed repr lead_details =
     ((case map_of lead_details ''tags'' of
         None \<Rightarrow> True
       | Some (PList tags) \<Rightarrow> list_all is_str tags
       | Some _ \<Rightarrow> False)
      \<and> (case map_of lead_details ''source'' of
           Some (PDict source) \<Rightarrow>
             (case map_of source ''name'' of None \<Rightarrow> True | Some n \<Rightarrow> is_str n \<or> \<not> truthy n)
         | _ \<Rightarrow> True)
      \<and> (is_str (get_custom_field repr lead_details ''Source'')
          \<or> \<not> truthy (get_custom_field repr lead_details ''Source'')))"

definition form_evidence :: "(pyval \<Rightarrow> string) \<Rightarrow> (string \<times> pyval) list \<Rightarrow> bool" where
  "form_evidence repr lead_details =
     (tag_mentions_form lead_details \<or> source_name_mentions_form lead_details
      \<or> many_fields_populated lead_details
      \<or> source_field_mentions_form repr lead_details
      \<or> indicator_field_present repr lead_details)"

text \<open>
  \<^verbatim>\<open>s.replace(old, new)\<close>: the occurrences of \<open>old\<close> from the left, not overlapping;
  an empty \<open>old\<close> matches before every character and at the end.
\<close>

function py_replace :: "string \<Rightarrow> string \<Rightarrow> string \<Rightarrow> string" where
  "py_replace old new [] = (if old = [] then new else [])"
| "py_replace old new (c # cs) =
     (if old = [] then new @ c # py_replace old new cs
      else if take (length old) (c # cs) = old
           then new @ py_replace old new (drop (length old) (c # cs))
      else c # py_replace old new cs)"
  by pat_completeness auto

termination
  by (relation "measure (\<lambda>(old, new, s). length s)") auto

section \<open>Email templates\<close>

text \<open>
  The table of templates is read when the script starts:
  \<^verbatim>\<open>
  possible_paths = [
      "email_templates.json",
      os.path.join(os.path.dirname(__file__), "email_templates.json"),
      "/mount/src/rejection-automation/email_templates.json"
  ]
  EMAIL_TEMPLATES = {}
  for path in possible_paths:
      try:
          with open(path, "r") as f:
              EMAIL_TEMPLATES = json.load(f)
              logger.info(f"Loaded {len(EMAIL_TEMPLATES)} email templates from {path}")
              break
      except Exception as e:
          logger.warning(f"Couldn't load email templates from {path}: {e}")
  if not EMAIL_TEMPLATES:
      logger.warning("Using default email templates")
      EMAIL_TEMPLATES = {"general": """Hi {first_name}, ... Warmly,"""}
  \<close>
  The file system is a function from a path to the value parsed from the file there, or
  \<open>None\<close> when opening or parsing raises. The assignment precedes the log line, whose
  \<^verbatim>\<open>len\<close> raises on a value without a length: the value stays and the loop goes on.
\<close>

definition path_join :: "string \<Rightarrow> string \<Rightarrow> string" where
  "path_join dir file =
     (if dir = [] then file
      else if last dir = CHR ''/'' then dir @ file
      else dir @ ''/'' @ file)"

definition possible_paths :: "string \<Rightarrow> string list" where
  "possible_paths script_dir =
     [''email_templates.json'',
      path_join script_dir ''email_templates.json'',
      ''/mount/src/rejection-automation/email_templates.json'']"

definition has_len :: "pyval \<Rightarrow> bool" where
  "has_len v = (case v of PStr _ \<Rightarrow> True | PList _ \<Rightarrow> True | PDict _ \<Rightarrow> True | _ \<Rightarrow> False)"

fun load_templates_loop :: "(string \<Rightarrow> pyval option) \<Rightarrow> pyval \<Rightarrow> string list \<Rightarrow> pyval" where
  "load_templates_loop read_json templates [] = templates"
| "load_templates_loop read_json templates (path # paths) =
     (case read_json path of
        None \<Rightarrow> load_templates_loop read_json templates paths
      | Some loaded \<Rightarrow>
          (if has_len loaded then loaded
           else load_templates_loop read_json loaded paths))"

definition default_general_template :: string where
  "default_general_template =
     ''Hi {first_name},\<newline>\<newline>Thanks so much for reaching out to Active Impact!\<newline>\<newline>Thank you for your interest in our fund, but we've decided to pass on this opportunity.\<newline>\<newline>Warmly,''"

definition default_templates :: pyval where
  "default_templates = PDict [(''general'', PStr default_general_template)]"

definition load_email_templates :: "(string \<Rightarrow> pyval option) \<Rightarrow> string \<Rightarrow> pyval" where
  "load_email_templates read_json script_dir =
     (let templates = load_templates_loop read_json (PDict []) (possible_paths script_dir)
      in if \<not> truthy templates then default_templates else templates)"

text \<open>
  \<^verbatim>\<open>
  def generate_rejection_email(lead_data, template_type="standard"):
      try:
          template = EMAIL_TEMPLATES.get(template_type, EMAIL_TEMPLATES.get("standard", ""))
          if not template:
              return None
          sender_name = get_sender_name(EMAIL_ADDRESS)
          email_content = template.replace("{lead_name}", lead_data.get("name", ""))
          email_content = email_content.replace("{company_name}", lead_data.get("company_name", ""))
          email_content = email_content.replace("{sender_name}", sender_name)
          email_content += f"\n\nWarmly,\n{sender_name}"
          return email_content
      except Exception as e:
          return None
  \<close>
  The globals \<^verbatim>\<open>EMAIL_TEMPLATES\<close> and \<^verbatim>\<open>EMAIL_ADDRESS\<close> are arguments.
  \<open>rejection_email_body\<close> is the body of the \<^verbatim>\<open>try\<close>: only a dictionary has
  \<^verbatim>\<open>get\<close>, only a string has \<^verbatim>\<open>replace\<close>, and \<^verbatim>\<open>replace\<close> raises on a
  replacement that is not a string.
\<close>

definition signature_block :: "string \<Rightarrow> string" where
  "signature_block sender_name = ''\<newline>\<newline>Warmly,\<newline>'' @ sender_name"

definition str_replace :: "string \<Rightarrow> string \<Rightarrow> pyval \<Rightarrow> pyerr + string" where
  "str_replace s old new =
     (case new of PStr n \<Rightarrow> Inr (py_replace old n s) | _ \<Rightarrow> Inl TypeError)"

definition rejection_email_body ::
  "pyval \<Rightarrow> pyval \<Rightarrow> (string \<times> pyval) list \<Rightarrow> string \<Rightarrow> pyerr + string option" where
  "rejection_email_body EMAIL_TEMPLATES EMAIL_ADDRESS lead_data template_type =
     (case EMAIL_TEMPLATES of
        PDict templates \<Rightarrow>
          (let template = dict_get templates template_type (dict_get templates ''standard'' (PStr ''''))
           in if \<not> truthy template then Inr None
              else (case template of
                      PStr t \<Rightarrow>
                        (let sender_name = get_sender_name EMAIL_ADDRESS
                         in case str_replace t ''{lead_name}'' (dict_get lead_data ''name'' (PStr '''')) of
                              Inl e \<Rightarrow> Inl e
                            | Inr c1 \<Rightarrow>
                           (case str_replace c1 ''{company_name}''
                                   (dict_get lead_data ''company_name'' (PStr '''')) of
                              Inl e \<Rightarrow> Inl e
                            | Inr c2 \<Rightarrow>
                                Inr (Some (py_replace ''{sender_name}'' sender_name c2
                                           @ signature_block sender_name))))
                    | _ \<Rightarrow> Inl AttributeError))
      | _ \<Rightarrow> Inl AttributeError)"

definition generate_rejection_email ::
  "pyval \<Rightarrow> pyval \<Rightarrow> (string \<times> pyval) list \<Rightarrow> string \<Rightarrow> string option" where
  "generate_rejection_email EMAIL_TEMPLATES EMAIL_ADDRESS lead_data template_type =
     (case rejection_email_body EMAIL_TEMPLATES EMAIL_ADDRESS lead_data template_type of
        Inr email_content \<Rightarrow> email_content
      | Inl _ \<Rightarrow> None)"

text \<open>What \<^verbatim>\<open>replace\<close> accepts from a lead: a name and a company name that are strings or absent.\<close>

definition lead_texts_are_strings :: "(string \<times> pyval) list \<Rightarrow> bool" where
  "lead_texts_are_strings lead_data =
     (is_str (dict_get lead_data ''name'' (PStr ''''))
      \<and> is_str (dict_get lead_data ''company_name'' (PStr '''')))"

section \<open>Dates\<close>

text \<open>
  The clock of the platform is a parameter. A \<^verbatim>\<open>datetime\<close> is its count of
  microseconds of local time; \<open>fromtimestamp\<close> is \<^verbatim>\<open>datetime.fromtimestamp\<close>, which
  raises outside the years it can represent, \<open>now\<close> is \<^verbatim>\<open>datetime.now()\<close> and
  \<open>strftime\<close> formats with \<^verbatim>\<open>'%Y-%m-%d %H:%M:%S'\<close>.
\<close>

record clock =
  fromtimestamp :: "rat \<Rightarrow> pyerr + int"
  now :: int
  strftime :: "int \<Rightarrow> string"

text \<open>\<^verbatim>\<open>timedelta.days\<close> of a difference of microseconds: the whole days, rounded down.\<close>

definition timedelta_days :: "int \<Rightarrow> int" where
  "timedelta_days microseconds = microseconds div 86400000000"

text \<open>A number in a comparison or as a timestamp: a boolean counts as 0 or 1.\<close>

definition as_number :: "pyval \<Rightarrow> pyerr + rat" where
  "as_number v =
     (case v of
        PNum n \<Rightarrow> Inr n
      | PBool b \<Rightarrow> Inr (if b then 1 else 0)
      | _ \<Rightarrow> Inl TypeError)"

text \<open>
  \<^verbatim>\<open>
  def format_date(timestamp):
      if not timestamp:
          return "Unknown date"
      try:
          if timestamp > 1000000000000:
              timestamp = timestamp / 1000
          return datetime.fromtimestamp(timestamp).strftime('%Y-%m-%d %H:%M:%S')
      except Exception as e:
          return "Date format error"
  \<close>
  \<open>format_date_body\<close> is the body of the \<^verbatim>\<open>try\<close>.
\<close>

definition format_date_body :: "clock \<Rightarrow> pyval \<Rightarrow> pyerr + string" where
  "format_date_body clk timestamp =
     (case as_number timestamp of
        Inl e \<Rightarrow> Inl e
      | Inr n \<Rightarrow>
          (let seconds = (if n > 1000000000000 then n / 1000 else n)
           in case fromtimestamp clk seconds of
                Inl e \<Rightarrow> Inl e
              | Inr date \<Rightarrow> Inr (strftime clk date)))"

definition format_date :: "clock \<Rightarrow> pyval \<Rightarrow> string" where
  "format_date clk timestamp =
     (if \<not> truthy timestamp then ''Unknown date''
      else (case format_date_body clk timestamp of
              Inr formatted \<Rightarrow> formatted
            | Inl _ \<Rightarrow> ''Date format error''))"

text \<open>
  \<^verbatim>\<open>
  def days_in_copper(timestamp):
      if not timestamp:
          return "Unknown"
      try:
          if timestamp > 1000000000000:
              timestamp = timestamp / 1000
          created_date = datetime.fromtimestamp(timestamp)
          current_date = datetime.now()
          days = (current_date - created_date).days
          return days
      except Exception as e:
          return "Unknown"
  \<close>
  The result is a number of days or the string \<open>Unknown\<close>.
\<close>

definition days_in_copper_body :: "clock \<Rightarrow> pyval \<Rightarrow> pyerr + int" where
  "days_in_copper_body clk timestamp =
     (case as_number timestamp of
        Inl e \<Rightarrow> Inl e
      | Inr n \<Rightarrow>
          (let seconds = (if n > 1000000000000 then n / 1000 else n)
           in case fromtimestamp clk seconds of
                Inl e \<Rightarrow> Inl e
              | Inr created_date \<Rightarrow>
                  (let current_date = now clk
                   in Inr (timedelta_days (current_date - created_date)))))"

definition days_in_copper :: "clock \<Rightarrow> pyval \<Rightarrow> pyval" where
  "days_in_copper clk timestamp =
     (if \<not> truthy timestamp then PStr ''Unknown''
      else (case days_in_copper_body clk timestamp of
              Inr days \<Rightarrow> PNum (of_int days)
            | Inl _ \<Rightarrow> PStr ''Unknown''))"

subsection \<open>A clock in the UTC time zone\<close>

text \<open>
  An instance of the clock for the examples: local time is UTC, a \<^verbatim>\<open>datetime\<close> counts
  its microseconds from 1970-01-01 00:00:00, the conversion rounds to the nearest
  microsecond (a tie to the even one) and raises outside the years 1 to 9999, and the
  format writes the proleptic Gregorian date with a year of four digits.
\<close>

definition round_half_even :: "rat \<Rightarrow> int" where
  "round_half_even x =
     (let f = \<lfloor>x\<rfloor>; r = x - of_int f
      in if r < 1 / 2 then f
         else if 1 / 2 < r then f + 1
         else if even f then f else f + 1)"

definition utc_fromtimestamp :: "rat \<Rightarrow> pyerr + int" where
  "utc_fromtimestamp t =
     (let us = round_half_even (t * 1000000)
      in if - 62135596800000000 \<le> us \<and> us \<le> 253402300799999999 then Inr us
         else Inl ValueError)"

definition digit :: "int \<Rightarrow> char" where
  "digit n = ''0123456789'' ! nat n"

definition two_digits :: "int \<Rightarrow> string" where
  "two_digits n = [digit (n div 10), digit (n mod 10)]"

definition four_digits :: "int \<Rightarrow> string" where
  "four_digits n = two_digits (n div 100) @ two_digits (n mod 100)"

definition civil_from_days :: "int \<Rightarrow> int \<times> int \<times> int" where
  "civil_from_days days =
     (let z = days + 719468;
          era = z div 146097;
          doe = z - era * 146097;
          yoe = (doe - doe div 1460 + doe div 36524 - doe div 146096) div 365;
          doy = doe - (365 * yoe + yoe div 4 - yoe div 100);
          mp = (5 * doy + 2) div 153;
          d = doy - (153 * mp + 2) div 5 + 1;
          m = (if mp < 10 then mp + 3 else mp - 9);
          y = yoe + era * 400 + (if m \<le> 2 then 1 else 0)
      in (y, m, d))"

definition utc_strftime :: "int \<Rightarrow> string" where
  "utc_strftime us =
     (let secs = us div 1000000;
          days = secs div 86400;
          sod = secs mod 86400
      in case civil_from_days days of
           (y, m, d) \<Rightarrow>
             four_digits y @ ''-'' @ two_digits m @ ''-'' @ two_digits d @ '' ''
             @ two_digits (sod div 3600) @ '':'' @ two_digits (sod mod 3600 div 60) @ '':''
             @ two_digits (sod mod 60))"

definition utc_clock :: "int \<Rightarrow> clock" where
  "utc_clock current = \<lparr>fromtimestamp = utc_fromtimestamp, now = current, strftime = utc_strftime\<rparr>"

subsection \<open>A clock in a time zone\<close>

text \<open>
  \<^verbatim>\<open>datetime.fromtimestamp\<close> and \<^verbatim>\<open>datetime.now()\<close> return naive local times. In
  a time zone, \<open>offset\<close> gives for an instant (in microseconds since 1970-01-01
  00:00:00 UTC) the microseconds that local time is ahead of UTC at that instant: the
  conversion reads the local time at the instant of the timestamp, and \<open>now\<close> the
  local time at the current instant.
\<close>

definition zone_fromtimestamp :: "(int \<Rightarrow> int) \<Rightarrow> rat \<Rightarrow> pyerr + int" where
  "zone_fromtimestamp offset t =
     (let instant = round_half_even (t * 1000000);
          local_time = instant + offset instant
      in if - 62135596800000000 \<le> local_time \<and> local_time \<le> 253402300799999999
         then Inr local_time
         else Inl ValueError)"

definition zone_clock :: "(int \<Rightarrow> int) \<Rightarrow> int \<Rightarrow> clock" where
  "zone_clock offset current =
     \<lparr>fromtimestamp = zone_fromtimestamp offset,
      now = current + offset current,
      strftime = utc_strftime\<rparr>"

text \<open>
  The instant that a timestamp other than 0 denotes, in microseconds: milliseconds
  above \<open>10\<^sup>1\<^sup>2\<close>, seconds otherwise.
\<close>

definition timestamp_instant :: "rat \<Rightarrow> int" where
  "timestamp_instant t =
     round_half_even ((if 1000000000000 < t then t / 1000 else t) * 1000000)"

section \<open>Sending an email\<close>

text \<open>
  The classes of the exceptions that the mail library and the message construction
  raise, with the class hierarchy of \<^verbatim>\<open>smtplib\<close>: \<open>bases\<close> lists a class and its
  ancestors up to \<^verbatim>\<open>Exception\<close>. \<open>OtherOSError\<close> stands for the socket and TLS
  errors, \<open>OtherError\<close> for every other subclass of \<^verbatim>\<open>Exception\<close>. An exception
  that is raised carries its class and its text \<^verbatim>\<open>str(e)\<close>.
\<close>

datatype exc_class =
    Exception
  | OSError
  | SMTPException
  | SMTPNotSupportedError
  | SMTPServerDisconnected
  | SMTPResponseException
  | SMTPSenderRefused
  | SMTPRecipientsRefused
  | SMTPDataError
  | SMTPConnectError
  | SMTPHeloError
  | SMTPAuthenticationError
  | OtherOSError
  | OtherError

fun bases :: "exc_class \<Rightarrow> exc_class list" where
  "bases Exception = [Exception]"
| "bases OSError = [OSError, Exception]"
| "bases SMTPException = [SMTPException, OSError, Exception]"
| "bases SMTPNotSupportedError = [SMTPNotSupportedError, SMTPException, OSError, Exception]"
| "bases SMTPServerDisconnected = [SMTPServerDisconnected, SMTPException, OSError, Exception]"
| "bases SMTPResponseException = [SMTPResponseException, SMTPException, OSError, Exception]"
| "bases SMTPSenderRefused =
     [SMTPSenderRefused, SMTPResponseException, SMTPException, OSError, Exception]"
| "bases SMTPRecipientsRefused = [SMTPRecipientsRefused, SMTPException, OSError, Exception]"
| "bases SMTPDataError =
     [SMTPDataError, SMTPResponseException, SMTPException, OSError, Exception]"
| "bases SMTPConnectError =
     [SMTPConnectError, SMTPResponseException, SMTPException, OSError, Exception]"
| "bases SMTPHeloError =
     [SMTPHeloError, SMTPResponseException, SMTPException, OSError, Exception]"
| "bases SMTPAuthenticationError =
     [SMTPAuthenticationError, SMTPResponseException, SMTPException, OSError, Exception]"
| "bases OtherOSError = [OtherOSError, OSError, Exception]"
| "bases OtherError = [OtherError, Exception]"

datatype raised = Raised exc_class string

fun exc_text :: "raised \<Rightarrow> string" where
  "exc_text (Raised cls msg) = msg"

fun isinstance :: "raised \<Rightarrow> exc_class \<Rightarrow> bool" where
  "isinstance (Raised cls msg) c = (c \<in> set (bases cls))"

text \<open>
  An \<^verbatim>\<open>except\<close> chain: the first clause whose class the exception is an instance of
  handles it; an exception that no clause matches propagates.
\<close>

fun except_chain :: "(exc_class \<times> (raised \<Rightarrow> 'a)) list \<Rightarrow> raised \<Rightarrow> raised + 'a" where
  "except_chain [] e = Inl e"
| "except_chain ((c, handler) # clauses) e =
     (if isinstance e c then Inr (handler e) else except_chain clauses e)"

text \<open>
  The calls of the \<^verbatim>\<open>try\<close> block of \<^verbatim>\<open>send_email\<close>, with their arguments, in the
  order of the source. What each call does is up to the mail server and the library:
  the \<open>world\<close> says which exception a call raises, if any. A run performs the calls in
  order up to the first one that raises and records the calls it made.
\<close>

datatype smtp_step =
    Compose pyval pyval pyval pyval pyval
  | Connect
  | SetDebuglevel
  | StartTLS
  | Login pyval pyval
  | AsString
  | Sendmail pyval "pyval list"
  | Quit

fun run_steps ::
  "(smtp_step \<Rightarrow> raised option) \<Rightarrow> smtp_step list \<Rightarrow> smtp_step list
     \<Rightarrow> raised option \<times> smtp_step list" where
  "run_steps world [] made = (None, made)"
| "run_steps world (step # steps) made =
     (case world step of
        Some e \<Rightarrow> (Some e, made @ [step])
      | None \<Rightarrow> run_steps world steps (made @ [step]))"

text \<open>
  \<^verbatim>\<open>
  def send_email(recipient_email, subject, body, cc_email=None):
      if not EMAIL_ADDRESS or not EMAIL_PASSWORD:
          error_msg = "Email credentials not configured. Please check your Streamlit secrets."
          return False, error_msg
      if not recipient_email:
          error_msg = "No recipient email provided"
          return False, error_msg
      try:
          msg = MIMEMultipart()
          msg['From'] = EMAIL_ADDRESS
          msg['To'] = recipient_email
          msg['Subject'] = subject
          if cc_email:
              msg['Cc'] = cc_email
          msg.attach(MIMEText(body, 'plain'))
          server = smtplib.SMTP(SMTP_SERVER, SMTP_PORT)
          server.set_debuglevel(1)
          server.starttls()
          server.login(EMAIL_ADDRESS, EMAIL_PASSWORD)
          text = msg.as_string()
          recipients = [recipient_email]
          if cc_email:
              recipients.append(cc_email)
          server.sendmail(EMAIL_ADDRESS, recipients, text)
          server.quit()
          return True, "Email sent successfully!"
      except smtplib.SMTPAuthenticationError as e:
          if "535" in str(e):
              error_msg = ("Authentication failed with Gmail. This is likely because:\n" ...)
          else:
              error_msg = f"Authentication failed: {str(e)}. Please check your email credentials."
          return False, error_msg
      except smtplib.SMTPSenderRefused as e:
          error_msg = f"Sender refused: {str(e)}. This may be due to restrictions on your Gmail account."
          return False, error_msg
      except smtplib.SMTPRecipientsRefused as e:
          error_msg = f"Recipient(s) refused: {str(e)}. Please check the recipient email address."
          return False, error_msg
      except smtplib.SMTPException as e:
          error_msg = f"SMTP error: {str(e)}"
          return False, error_msg
      except Exception as e:
          error_msg = f"Failed to send email: {str(e)}"
          return False, error_msg
  \<close>
  The globals \<^verbatim>\<open>EMAIL_ADDRESS\<close> and \<^verbatim>\<open>EMAIL_PASSWORD\<close> are arguments. The result
  is the value returned, or the exception that propagates, together with the calls made.
\<close>

definition gmail_authentication_help :: string where
  "gmail_authentication_help =
     ''Authentication failed with Gmail. This is likely because:\<newline>''
     @ ''1. You need to use an App Password instead of your regular password\<newline>''
     @ ''2. Your account has 2-factor authentication enabled which requires an App Password\<newline>''
     @ ''3. Your password may be incorrect\<newline>\<newline>''
     @ ''To create an App Password:\<newline>''
     @ ''1. Go to your Google Account settings\<newline>''
     @ ''2. Search for 'App Passwords'\<newline>''
     @ ''3. Generate a new app password for 'Mail'\<newline>''
     @ ''4. Use that password in your Streamlit secrets''"

definition authentication_message :: "raised \<Rightarrow> string" where
  "authentication_message e =
     (if py_in ''535'' (exc_text e) then gmail_authentication_help
      else ''Authentication failed: '' @ exc_text e @ ''. Please check your email credentials.'')"

definition sender_refused_message :: "raised \<Rightarrow> string" where
  "sender_refused_message e =
     ''Sender refused: '' @ exc_text e
     @ ''. This may be due to restrictions on your Gmail account.''"

definition recipients_refused_message :: "raised \<Rightarrow> string" where
  "recipients_refused_message e =
     ''Recipient(s) refused: '' @ exc_text e @ ''. Please check the recipient email address.''"

definition smtp_error_message :: "raised \<Rightarrow> string" where
  "smtp_error_message e = ''SMTP error: '' @ exc_text e"

definition failed_message :: "raised \<Rightarrow> string" where
  "failed_message e = ''Failed to send email: '' @ exc_text e"

definition send_email_clauses :: "(exc_class \<times> (raised \<Rightarrow> bool \<times> string)) list" where
  "send_email_clauses =
     [(SMTPAuthenticationError, \<lambda>e. (False, authentication_message e)),
      (SMTPSenderRefused, \<lambda>e. (False, sender_refused_message e)),
      (SMTPRecipientsRefused, \<lambda>e. (False, recipients_refused_message e)),
      (SMTPException, \<lambda>e. (False, smtp_error_message e)),
      (Exception, \<lambda>e. (False, failed_message e))]"

definition send_steps :: "pyval \<Rightarrow> pyval \<Rightarrow> pyval \<Rightarrow> pyval \<Rightarrow> pyval \<Rightarrow> pyval \<Rightarrow> smtp_step list" where
  "send_steps EMAIL_ADDRESS EMAIL_PASSWORD recipient_email subject body cc_email =
     [Compose EMAIL_ADDRESS recipient_email subject cc_email body,
      Connect,
      SetDebuglevel,
      StartTLS,
      Login EMAIL_ADDRESS EMAIL_PASSWORD,
      AsString,
      Sendmail EMAIL_ADDRESS
        (if truthy cc_email then [recipient_email, cc_email] else [recipient_email]),
      Quit]"

definition send_email ::
  "pyval \<Rightarrow> pyval \<Rightarrow> (smtp_step \<Rightarrow> raised option) \<Rightarrow> pyval \<Rightarrow> pyval \<Rightarrow> pyval \<Rightarrow> pyval
     \<Rightarrow> (raised + bool \<times> string) \<times> smtp_step list" where
  "send_email EMAIL_ADDRESS EMAIL_PASSWORD world recipient_email subject body cc_email =
     (if \<not> truthy EMAIL_ADDRESS \<or> \<not> truthy EMAIL_PASSWORD then
        (Inr (False, ''Email credentials not configured. Please check your Streamlit secrets.''), [])
      else if \<not> truthy recipient_email then
        (Inr (False, ''No recipient email provided''), [])
      else
        (case run_steps world
                (send_steps EMAIL_ADDRESS EMAIL_PASSWORD recipient_email subject body cc_email) [] of
           (None, made) \<Rightarrow> (Inr (True, ''Email sent successfully!''), made)
         | (Some e, made) \<Rightarrow> (except_chain send_email_clauses e, made)))"

text \<open>The clause of an \<^verbatim>\<open>except\<close> chain that catches an exception, by its class.\<close>

fun catching_clause :: "(exc_class \<times> (raised \<Rightarrow> 'a)) list \<Rightarrow> raised \<Rightarrow> exc_class option" where
  "catching_clause [] e = None"
| "catching_clause ((c, handler) # clauses) e =
     (if isinstance e c then Some c else catching_clause clauses e)"

fun is_sendmail :: "smtp_step \<Rightarrow> bool" where
  "is_sendmail (Sendmail sender recipients) = True"
| "is_sendmail step = False"

text \<open>The message of each clause of \<^verbatim>\<open>send_email\<close>, by the class it names.\<close>

definition clause_message :: "exc_class \<Rightarrow> raised \<Rightarrow> string" where
  "clause_message c e =
     (if c = SMTPAuthenticationError then authentication_message e
      else if c = SMTPSenderRefused then sender_refused_message e
      else if c = SMTPRecipientsRefused then recipients_refused_message e
      else if c = SMTPException then smtp_error_message e
      else failed_message e)"

section \<open>Caches of CRM data\<close>

text \<open>
  A key of a Python dictionary: lists and dictionaries are not hashable, and a boolean
  is the same key as the number 0 or 1.
\<close>

definition hashable :: "pyval \<Rightarrow> bool" where
  "hashable v = (case v of PList _ \<Rightarrow> False | PDict _ \<Rightarrow> False | _ \<Rightarrow> True)"

definition dict_key :: "pyval \<Rightarrow> pyval" where
  "dict_key v = (case v of PBool b \<Rightarrow> PNum (if b then 1 else 0) | _ \<Rightarrow> v)"

text \<open>
  The two requests of the cached lookups, and what the CRM answers: \<^verbatim>\<open>requests.get\<close>
  raises or returns a response with its status code, its text and the value that
  \<^verbatim>\<open>response.json()\<close> parses from it (\<open>None\<close> when parsing raises).
\<close>

datatype request = GetLeadDetails pyval | GetFieldDefinitions

record response =
  status_code :: nat
  json :: "pyval option"
  body_text :: string

text \<open>
  The module globals \<^verbatim>\<open>LEAD_DETAILS_CACHE = {}\<close> and
  \<^verbatim>\<open>FIELD_DEFINITIONS_CACHE = None\<close>, the entry \<^verbatim>\<open>email_cache\<close> of the session
  state (\<open>None\<close> when the session state has no such entry), and the requests issued
  so far. The session state has one more entry, \<^verbatim>\<open>selected_leads\<close>, the drafts in
  progress: no lookup reads it and the refresh leaves it alone, and it is not part of
  the state here.
\<close>

record app_state =
  LEAD_DETAILS_CACHE :: "pyval \<rightharpoonup> pyval"
  FIELD_DEFINITIONS_CACHE :: "(pyval \<rightharpoonup> pyval) option"
  email_cache :: "(string \<rightharpoonup> string) option"
  issued :: "request list"

definition initial_state :: app_state where
  "initial_state =
     \<lparr>LEAD_DETAILS_CACHE = Map.empty, FIELD_DEFINITIONS_CACHE = None,
      email_cache = None, issued = []\<rparr>"

text \<open>
  \<^verbatim>\<open>
  def fetch_custom_field_definitions():
      global FIELD_DEFINITIONS_CACHE
      if FIELD_DEFINITIONS_CACHE is not None:
          return FIELD_DEFINITIONS_CACHE
      response = requests.get(f"{COPPER_API_URL}/custom_field_definitions", headers=HEADERS)
      if response.status_code == 200:
          definitions = response.json()
          logger.info(f"Successfully fetched {len(definitions)} custom field definitions from Copper")
          definition_map = {}
          for definition in definitions:
              definition_map[definition.get("id")] = definition.get("name")
          FIELD_DEFINITIONS_CACHE = definition_map
          return definition_map
      else:
          error_msg = f"Error fetching custom field definitions: {response.text}"
          st.error(error_msg)
          logger.error(error_msg)
          return {}
  \<close>
  The function has no handler: an exception of the request, of the parsing or of the
  loop propagates, with the request issued and the cache as it was.
\<close>

fun definition_map_loop ::
  "(pyval \<rightharpoonup> pyval) \<Rightarrow> pyval list \<Rightarrow> pyerr + (pyval \<rightharpoonup> pyval)" where
  "definition_map_loop definition_map [] = Inr definition_map"
| "definition_map_loop definition_map (definition # definitions) =
     (case definition of
        PDict d \<Rightarrow>
          (let key = dict_get d ''id'' PNone
           in if hashable key
              then definition_map_loop
                     (definition_map(dict_key key \<mapsto> dict_get d ''name'' PNone)) definitions
              else Inl TypeError)
      | _ \<Rightarrow> Inl AttributeError)"

definition build_definition_map :: "pyval \<Rightarrow> pyerr + (pyval \<rightharpoonup> pyval)" where
  "build_definition_map definitions =
     (if \<not> has_len definitions then Inl TypeError
      else (case py_iter definitions of
              Inl e \<Rightarrow> Inl e
            | Inr items \<Rightarrow> definition_map_loop Map.empty items))"

definition fetch_custom_field_definitions ::
  "(request \<Rightarrow> pyerr + response) \<Rightarrow> app_state \<Rightarrow> (pyerr + (pyval \<rightharpoonup> pyval)) \<times> app_state" where
  "fetch_custom_field_definitions server st =
     (case FIELD_DEFINITIONS_CACHE st of
        Some cached \<Rightarrow> (Inr cached, st)
      | None \<Rightarrow>
          (let st1 = st\<lparr>issued := issued st @ [GetFieldDefinitions]\<rparr>
           in case server GetFieldDefinitions of
                Inl e \<Rightarrow> (Inl e, st1)
              | Inr response \<Rightarrow>
                  (if status_code response = 200 then
                     (case json response of
                        None \<Rightarrow> (Inl JSONDecodeError, st1)
                      | Some definitions \<Rightarrow>
                          (case build_definition_map definitions of
                             Inl e \<Rightarrow> (Inl e, st1)
                           | Inr definition_map \<Rightarrow>
                               (Inr definition_map,
                                st1\<lparr>FIELD_DEFINITIONS_CACHE := Some definition_map\<rparr>)))
                   else (Inr Map.empty, st1))))"

text \<open>
  \<^verbatim>\<open>
  def fetch_lead_details(lead_id):
      global LEAD_DETAILS_CACHE
      if lead_id in LEAD_DETAILS_CACHE:
          return LEAD_DETAILS_CACHE[lead_id]
      response = requests.get(f"{COPPER_API_URL}/leads/{lead_id}?custom_field_computed_values=true",
                              headers=HEADERS)
      if response.status_code == 200:
          lead_details = response.json()
          LEAD_DETAILS_CACHE[lead_id] = lead_details
          return lead_details
      else:
          error_msg = f"Error fetching lead details: {response.text}"
          st.error(error_msg)
          logger.error(error_msg)
          return {}
  \<close>
\<close>

definition fetch_lead_details ::
  "(request \<Rightarrow> pyerr + response) \<Rightarrow> pyval \<Rightarrow> app_state \<Rightarrow> (pyerr + pyval) \<times> app_state" where
  "fetch_lead_details server lead_id st =
     (if \<not> hashable lead_id then (Inl TypeError, st)
      else (case LEAD_DETAILS_CACHE st (dict_key lead_id) of
              Some cached \<Rightarrow> (Inr cached, st)
            | None \<Rightarrow>
                (let st1 = st\<lparr>issued := issued st @ [GetLeadDetails lead_id]\<rparr>
                 in case server (GetLeadDetails lead_id) of
                      Inl e \<Rightarrow> (Inl e, st1)
                    | Inr response \<Rightarrow>
                        (if status_code response = 200 then
                           (case json response of
                              None \<Rightarrow> (Inl JSONDecodeError, st1)
                            | Some lead_details \<Rightarrow>
                                (Inr lead_details,
                                 st1\<lparr>LEAD_DETAILS_CACHE :=
                                       (LEAD_DETAILS_CACHE st1)(dict_key lead_id \<mapsto> lead_details)\<rparr>))
                         else (Inr (PDict []), st1)))))"






text \<open>
  What a response with the definitions stores: a definition is an object whose id is
  hashable, and the map takes each id to the name of the last definition with that id.
\<close>

definition definition_ok :: "pyval \<Rightarrow> bool" where
  "definition_ok definition =
     (case definition of PDict d \<Rightarrow> hashable (dict_get d ''id'' PNone) | _ \<Rightarrow> False)"

definition definition_entry :: "pyval \<Rightarrow> pyval \<times> pyval" where
  "definition_entry definition =
     (case definition of
        PDict d \<Rightarrow> (dict_key (dict_get d ''id'' PNone), dict_get d ''name'' PNone)
      | _ \<Rightarrow> (PNone, PNone))"

definition id_to_name :: "pyval list \<Rightarrow> (pyval \<rightharpoonup> pyval)" where
  "id_to_name definitions = map_of (rev (map definition_entry definitions))"

section \<open>Example data\<close>

text \<open>
  An instance of the formatting parameter for the examples, which format no number and
  no container.
\<close>

definition repr_of_constants :: "pyval \<Rightarrow> string" where
  "repr_of_constants v =
     (case v of
        PNone \<Rightarrow> ''None''
      | PBool b \<Rightarrow> (if b then ''True'' else ''False'')
      | _ \<Rightarrow> [])"

definition revenue_model_lead :: "(string \<times> pyval) list" where
  "revenue_model_lead =
     [(''name'', PStr ''Ada Ltd''),
      (''custom_fields'',
         PList [PDict [(''name'', PStr ''Revenue Model''), (''value'', PStr ''SaaS'')]])]"

definition web_form_lead :: "(string \<times> pyval) list" where
  "web_form_lead =
     [(''name'', PStr ''Ada Ltd''),
      (''tags'', PList [PStr ''investor'', PStr ''Web Form''])]"

definition stage_lead :: "(string \<times> pyval) list" where
  "stage_lead =
     [(''custom_fields'',
         PList [PDict [(''name'', PStr ''Sector''), (''value'', PStr ''Energy'')],
                PDict [(''name'', PStr ''Stage''), (''value'', PList [PNum 7, PNum 9]),
                       (''computed_value'', PList [PStr ''Seed'', PStr ''Series A''])]])]"

definition no_template_files :: "string \<Rightarrow> pyval option" where
  "no_template_files path = None"

definition ada_lead :: "(string \<times> pyval) list" where
  "ada_lead = [(''name'', PStr ''Ada Ltd''), (''company_name'', PStr ''Ada'')]"

definition login_rejecting_world :: "smtp_step \<Rightarrow> raised option" where
  "login_rejecting_world step =
     (case step of
        Login user password \<Rightarrow>
          Some (Raised SMTPAuthenticationError ''(535, Username and Password not accepted)'')
      | _ \<Rightarrow> None)"

definition stage_definitions :: "pyval \<rightharpoonup> pyval" where
  "stage_definitions = [PNum 7 \<mapsto> PStr ''Stage'']"


definition ok_server :: "request \<Rightarrow> pyerr + response" where
  "ok_server req =
     Inr \<lparr>status_code = 200,
          json = Some (case req of
                         GetLeadDetails lead_id \<Rightarrow> PDict [(''id'', lead_id), (''name'', PStr ''Ada Ltd'')]
                       | GetFieldDefinitions \<Rightarrow>
                           PList [PDict [(''id'', PNum 7), (''name'', PStr ''Stage'')]]),
          body_text = []\<rparr>"

definition failing_server :: "request \<Rightarrow> pyerr + response" where
  "failing_server req = Inr \<lparr>status_code = 500, json = None, body_text = ''Internal Server Error''\<rparr>"

definition lead_42 :: pyval where
  "lead_42 = PDict [(''id'', PNum 42), (''name'', PStr ''Ada Ltd'')]"

text \<open>
  The offset of the examples: an hour ahead of UTC during British Summer Time of 2026
  (from 2026-03-29 01:00:00 to 2026-10-25 01:00:00 UTC), at UTC otherwise.
\<close>

definition summer_2026_offset :: "int \<Rightarrow> int" where
  "summer_2026_offset instant =
     (if 1774746000000000 \<le> instant \<and> instant < 1792890000000000 then 3600000000 else 0)"

definition accepting_world :: "smtp_step \<Rightarrow> raised option" where
  "accepting_world step = None"

text \<open>A CRM that answers with status 200 and a body that is not JSON.\<close>

definition garbled_server :: "request \<Rightarrow> pyerr + response" where
  "garbled_server req = Inr \<lparr>status_code = 200, json = None, body_text = ''<html>''\<rparr>"

definition stage_definition_list :: "pyval list" where
  "stage_definition_list = [PDict [(''id'', PNum 7), (''name'', PStr ''Stage'')]]"

section \<open>Properties of the sender's first name\<close>






section \<open>Properties of the custom-field extraction\<close>

lemma get_custom_field_loop_find:
  "get_custom_field_loop repr field_list field_name =
     (case find (field_named field_name) field_list of
        Some field \<Rightarrow> field_display repr field
      | None \<Rightarrow> PStr '''')"
proof (induction field_list)
  case Nil
  show ?case by simp
next
  case (Cons field rest)
  show ?case
  proof (cases field)
    case (PDict d)
    then show ?thesis
      using Cons
      by (cases "map_of d ''name''")
         (simp_all add: field_named_def field_display_def dict_get_def
            split: pyval.splits option.splits)
  qed (simp_all add: Cons field_named_def)
qed

text \<open>
  C1. For every lead-details mapping and field name, \<open>get_custom_field\<close> is the
  extraction of the specification: in a list of field dictionaries, the first one of
  that name gives its computed value when it has one (a list joined with
  commas), else its raw value, else the empty string; a mapping gives the value stored
  under the name, else the empty string; an absent or empty container gives the empty
  string.
\<close>

theorem get_custom_field_computed_else_raw:
  "get_custom_field repr lead_details field_name = custom_field_spec repr lead_details field_name"
proof (cases "map_of lead_details ''custom_fields''")
  case None
  then show ?thesis
    by (simp add: get_custom_field_def custom_field_spec_def dict_get_def)
next
  case (Some custom_fields)
  then show ?thesis
    by (cases custom_fields)
       (simp_all add: get_custom_field_def custom_field_spec_def dict_get_def
          get_custom_field_loop_find)
qed

text \<open>The extraction on a lead with a list-valued computed value.\<close>

theorem get_custom_field_witness:
  "get_custom_field repr_of_constants stage_lead ''Stage'' = PStr ''Seed, Series A''
   \<and> get_custom_field repr_of_constants stage_lead ''Sector'' = PStr ''Energy''
   \<and> get_custom_field repr_of_constants stage_lead ''Source'' = PStr ''''"
  using get_custom_field_computed_else_raw [of repr_of_constants stage_lead "''Stage''"]
    get_custom_field_computed_else_raw [of repr_of_constants stage_lead "''Sector''"]
    get_custom_field_computed_else_raw [of repr_of_constants stage_lead "''Source''"]
  by (simp add: custom_field_spec_def stage_lead_def field_named_def field_display_def py_str_def)

section \<open>Properties of the lead source\<close>

lemma any_tag_form_Inr:
  "any_tag_form tags = Inr b \<Longrightarrow>
     b = list_ex (\<lambda>tag. case tag of PStr t \<Rightarrow> mentions ''form'' t | _ \<Rightarrow> False) tags"
proof (induction tags)
  case Nil
  then show ?case by simp
next
  case (Cons tag tags)
  then show ?case
    by (cases tag) (auto simp: str_lower_def mentions_def split: if_splits)
qed

lemma any_tag_form_total:
  "list_all is_str tags \<Longrightarrow> \<exists>b. any_tag_form tags = Inr b"
proof (induction tags)
  case Nil
  show ?case by auto
next
  case (Cons tag tags)
  then show ?case
    by (cases tag) (auto simp: str_lower_def is_str_def)
qed

lemma tags_stage_Inr:
  assumes "py_iter (dict_get lead_details ''tags'' (PList [])) = Inr tags"
    and "any_tag_form tags = Inr b"
  shows "b = tag_mentions_form lead_details"
  using assms any_tag_form_Inr [of tags b] by (simp add: tag_mentions_form_def)

lemma source_name_value:
  assumes "(if truthy n then
              (case str_lower n of
                 Inl e \<Rightarrow> Inl e
               | Inr source_name \<Rightarrow>
                   Inr (py_in ''form'' source_name \<or> py_in ''website'' source_name
                        \<or> py_in ''submission'' source_name))
            else Inr False) = Inr b"
  shows "b = (case n of
                PStr s \<Rightarrow> mentions ''form'' s \<or> mentions ''website'' s \<or> mentions ''submission'' s
              | _ \<Rightarrow> False)"
proof (cases n)
  case (PStr s)
  with assms show ?thesis
    by (cases s) (auto simp: str_lower_def mentions_def py_lower_def)
qed (use assms in \<open>auto simp: str_lower_def split: if_splits\<close>)

lemma source_name_check_Inr:
  assumes "source_name_check lead_details = Inr b"
  shows "b = source_name_mentions_form lead_details"
proof (cases "map_of lead_details ''source''")
  case None
  with assms show ?thesis
    by (simp add: source_name_check_def source_name_mentions_form_def dict_get_def)
next
  case (Some src)
  show ?thesis
  proof (cases src)
    case (PDict source)
    show ?thesis
    proof (cases "map_of source ''name''")
      case None
      with assms Some PDict show ?thesis
        by (simp add: source_name_check_def source_name_mentions_form_def dict_get_def)
    next
      case (Some n)
      with assms \<open>map_of lead_details ''source'' = Some src\<close> PDict
      have "(if truthy n then
              (case str_lower n of
                 Inl e \<Rightarrow> Inl e
               | Inr source_name \<Rightarrow>
                   Inr (py_in ''form'' source_name \<or> py_in ''website'' source_name
                        \<or> py_in ''submission'' source_name))
            else Inr False) = Inr b"
        by (cases "truthy n") (simp_all add: source_name_check_def dict_get_def)
      from source_name_value [OF this] Some \<open>map_of lead_details ''source'' = Some src\<close> PDict
      show ?thesis
        by (simp add: source_name_mentions_form_def)
    qed
  qed (use assms Some in \<open>simp_all add: source_name_check_def source_name_mentions_form_def dict_get_def\<close>)
qed

lemma source_field_check_Inr:
  "source_field_check repr lead_details = Inr b \<Longrightarrow> b = source_field_mentions_form repr lead_details"
  unfolding source_field_check_def source_field_mentions_form_def Let_def
  by (cases "get_custom_field repr lead_details ''Source''")
     (auto simp: str_lower_def mentions_def py_lower_def split: if_splits)

lemma filled_fields_check_eq:
  "filled_fields_check lead_details = many_fields_populated lead_details"
proof -
  have "5 < length (filter field_filled xs) \<Longrightarrow> 5 < length xs" for xs :: "pyval list"
    using length_filter_le [of field_filled xs] by linarith
  then show ?thesis
    unfolding filled_fields_check_def many_fields_populated_def dict_get_def
    by (auto split: option.splits pyval.splits)
qed

lemma form_indicator_check_eq:
  "form_indicator_check repr lead_details = indicator_field_present repr lead_details"
  by (simp add: form_indicator_check_def indicator_field_present_def list_ex_iff)

lemma get_lead_source_Inr:
  assumes "get_lead_source repr lead_details = Inr r"
  shows "r = (if form_evidence repr lead_details then ''Form Submission'' else ''Manually Added'')"
proof -
  from assms obtain tags where tags: "py_iter (dict_get lead_details ''tags'' (PList [])) = Inr tags"
    by (auto simp: get_lead_source_def split: sum.splits)
  from assms tags obtain b1 where b1: "any_tag_form tags = Inr b1"
    by (auto simp: get_lead_source_def split: sum.splits)
  have c1: "b1 = tag_mentions_form lead_details"
    using tags b1 by (rule tags_stage_Inr)
  show ?thesis
  proof (cases b1)
    case True
    with assms tags b1 c1 show ?thesis
      by (simp add: get_lead_source_def form_evidence_def)
  next
    case nb1: False
    from assms tags b1 nb1 obtain b2 where b2: "source_name_check lead_details = Inr b2"
      by (auto simp: get_lead_source_def split: sum.splits)
    have c2: "b2 = source_name_mentions_form lead_details"
      using b2 by (rule source_name_check_Inr)
    show ?thesis
    proof (cases b2)
      case True
      with assms tags b1 nb1 b2 c2 show ?thesis
        by (simp add: get_lead_source_def form_evidence_def)
    next
      case nb2: False
      from assms tags b1 nb1 b2 nb2 obtain b3 where b3: "source_field_check repr lead_details = Inr b3"
        by (auto simp: get_lead_source_def split: sum.splits)
      have c3: "b3 = source_field_mentions_form repr lead_details"
        using b3 by (rule source_field_check_Inr)
      from assms tags b1 nb1 b2 nb2 b3 c1 c2 c3 show ?thesis
        by (auto simp: get_lead_source_def form_evidence_def filled_fields_check_eq
              form_indicator_check_eq split: if_splits)
    qed
  qed
qed

lemma get_lead_source_total:
  assumes "lead_well_typed repr lead_details"
  shows "\<exists>r. get_lead_source repr lead_details = Inr r"
proof -
  have "\<exists>tags. py_iter (dict_get lead_details ''tags'' (PList [])) = Inr tags \<and> list_all is_str tags"
  proof (cases "map_of lead_details ''tags''")
    case None
    then show ?thesis
      by (simp add: dict_get_def py_iter_def)
  next
    case (Some v)
    with assms show ?thesis
      by (cases v) (simp_all add: lead_well_typed_def dict_get_def py_iter_def)
  qed
  then obtain tags where tags: "py_iter (dict_get lead_details ''tags'' (PList [])) = Inr tags"
    and strs: "list_all is_str tags"
    by blast
  from strs obtain b1 where b1: "any_tag_form tags = Inr b1"
    using any_tag_form_total by blast
  have "\<exists>b2. source_name_check lead_details = Inr b2"
  proof (cases "map_of lead_details ''source''")
    case None
    then show ?thesis
      by (auto simp: source_name_check_def dict_get_def)
  next
    case (Some src)
    show ?thesis
    proof (cases src)
      case (PDict source)
      show ?thesis
      proof (cases "map_of source ''name''")
        case None
        with Some PDict show ?thesis
          by (auto simp: source_name_check_def dict_get_def)
      next
        case (Some n)
        with assms \<open>map_of lead_details ''source'' = Some src\<close> PDict
        have "is_str n \<or> \<not> truthy n"
          by (simp add: lead_well_typed_def)
        with Some \<open>map_of lead_details ''source'' = Some src\<close> PDict show ?thesis
          by (cases n) (auto simp: source_name_check_def dict_get_def str_lower_def is_str_def)
      qed
    qed (use Some in \<open>auto simp: source_name_check_def dict_get_def\<close>)
  qed
  then obtain b2 where b2: "source_name_check lead_details = Inr b2" ..
  have "\<exists>b3. source_field_check repr lead_details = Inr b3"
  proof (cases "truthy (get_custom_field repr lead_details ''Source'')")
    case True
    with assms obtain s where "get_custom_field repr lead_details ''Source'' = PStr s"
      by (cases "get_custom_field repr lead_details ''Source''")
         (simp_all add: lead_well_typed_def is_str_def)
    with True show ?thesis
      by (simp add: source_field_check_def str_lower_def)
  next
    case False
    then show ?thesis
      by (auto simp: source_field_check_def)
  qed
  then obtain b3 where b3: "source_field_check repr lead_details = Inr b3" ..
  show ?thesis
    using tags b1 b2 b3 by (cases b1; cases b2; cases b3) (simp_all add: get_lead_source_def)
qed

text \<open>
  C2, as amended. Whenever \<open>get_lead_source\<close> returns, it returns
  \<open>Form Submission\<close> exactly when one of five conditions holds, and
  \<open>Manually Added\<close> otherwise: a tag mentions \<open>form\<close>; the source name mentions
  \<open>form\<close>, \<open>website\<close> or \<open>submission\<close>; more than five custom fields are
  populated; the custom field \<open>Source\<close> mentions \<open>form\<close> or \<open>website\<close>; or
  one of the three form-indicator fields has a value. It returns on every lead whose
  tags, source name and \<open>Source\<close> field are strings.
\<close>

theorem get_lead_source_form_evidence:
  "(get_lead_source repr lead_details = Inr r \<longrightarrow>
      r = (if form_evidence repr lead_details then ''Form Submission'' else ''Manually Added''))
   \<and> (lead_well_typed repr lead_details \<longrightarrow>
        get_lead_source repr lead_details =
          Inr (if form_evidence repr lead_details then ''Form Submission'' else ''Manually Added''))"
proof (intro conjI impI)
  assume "get_lead_source repr lead_details = Inr r"
  then show "r = (if form_evidence repr lead_details then ''Form Submission'' else ''Manually Added'')"
    by (rule get_lead_source_Inr)
next
  assume "lead_well_typed repr lead_details"
  then obtain r' where r': "get_lead_source repr lead_details = Inr r'"
    using get_lead_source_total by blast
  then have "r' = (if form_evidence repr lead_details then ''Form Submission'' else ''Manually Added'')"
    by (rule get_lead_source_Inr)
  with r' show "get_lead_source repr lead_details =
      Inr (if form_evidence repr lead_details then ''Form Submission'' else ''Manually Added'')"
    by simp
qed

lemma web_form_lead_typed: "lead_well_typed repr_of_constants web_form_lead"
  by (simp add: lead_well_typed_def web_form_lead_def is_str_def get_custom_field_def dict_get_def)

lemma web_form_lead_tag: "tag_mentions_form web_form_lead"
  by (simp add: tag_mentions_form_def web_form_lead_def dict_get_def py_iter_def mentions_def
        py_lower_def lower_char_def upper_letters_def lower_letters_def)

theorem get_lead_source_form_evidence_witness:
  "lead_well_typed repr_of_constants web_form_lead
   \<and> form_evidence repr_of_constants web_form_lead
   \<and> get_lead_source repr_of_constants web_form_lead = Inr ''Form Submission''"
proof -
  have ev: "form_evidence repr_of_constants web_form_lead"
    using web_form_lead_tag by (simp add: form_evidence_def)
  from get_lead_source_form_evidence [of repr_of_constants web_form_lead "''Form Submission''"]
    web_form_lead_typed ev
  show ?thesis by simp
qed

text \<open>
  A lead with one custom field, \<open>Revenue Model\<close>, is classified as a form submission
  although none of the three conditions of the specification holds.
\<close>

theorem get_lead_source_counterexample:
  "get_lead_source repr_of_constants revenue_model_lead = Inr ''Form Submission''
   \<and> \<not> (tag_mentions_form revenue_model_lead
          \<or> source_name_mentions_form revenue_model_lead
          \<or> many_fields_populated revenue_model_lead)"
proof -
  have src: "get_custom_field repr_of_constants revenue_model_lead ''Source'' = PStr ''''"
    by (simp add: get_custom_field_def revenue_model_lead_def dict_get_def)
  have rev: "get_custom_field repr_of_constants revenue_model_lead ''Revenue Model'' = PStr ''SaaS''"
    by (simp add: get_custom_field_def revenue_model_lead_def dict_get_def)
  have tags: "py_iter (dict_get revenue_model_lead ''tags'' (PList [])) = Inr []"
    by (simp add: revenue_model_lead_def dict_get_def py_iter_def)
  have name: "source_name_check revenue_model_lead = Inr False"
    by (simp add: source_name_check_def revenue_model_lead_def dict_get_def)
  have field: "source_field_check repr_of_constants revenue_model_lead = Inr False"
    by (simp add: source_field_check_def src)
  have indicator: "form_indicator_check repr_of_constants revenue_model_lead"
    by (simp add: form_indicator_check_def form_indicator_fields_def rev)
  have "get_lead_source repr_of_constants revenue_model_lead = Inr ''Form Submission''"
    by (simp add: get_lead_source_def tags name field indicator)
  moreover have "\<not> tag_mentions_form revenue_model_lead"
    by (simp add: tag_mentions_form_def revenue_model_lead_def dict_get_def py_iter_def)
  moreover have "\<not> source_name_mentions_form revenue_model_lead"
    by (simp add: source_name_mentions_form_def revenue_model_lead_def)
  moreover have "\<not> many_fields_populated revenue_model_lead"
    by (simp add: many_fields_populated_def revenue_model_lead_def field_filled_def dict_get_def)
  ultimately show ?thesis by simp
qed

section \<open>Properties of the email templates\<close>

lemma py_replace_absent:
  "old \<noteq> [] \<Longrightarrow> \<not> py_in old s \<Longrightarrow> py_replace old new s = s"
  by (induction s) auto

lemma default_template_no_lead_name: "\<not> py_in ''{lead_name}'' default_general_template"
  by (simp add: default_general_template_def)

lemma default_template_no_company_name: "\<not> py_in ''{company_name}'' default_general_template"
  by (simp add: default_general_template_def)

lemma default_template_no_sender_name: "\<not> py_in ''{sender_name}'' default_general_template"
  by (simp add: default_general_template_def)

lemma default_template_first_name: "py_in ''{first_name}'' default_general_template"
  by (simp add: default_general_template_def)

lemma py_in_empty: "py_in [] s"
  by (cases s) simp_all

lemma take_whole_append:
  assumes "take (length needle) s = needle"
  shows "take (length needle) (s @ t) = needle"
proof -
  have "length (take (length needle) s) = length needle"
    using assms by simp
  then have "length needle \<le> length s"
    by simp
  with assms show ?thesis
    by simp
qed

lemma py_in_append: "py_in needle s \<Longrightarrow> py_in needle (s @ t)"
proof (induction s)
  case Nil
  then show ?case
    by (simp add: py_in_empty)
next
  case (Cons c cs)
  then show ?case
    using take_whole_append [of needle "c # cs" t] by auto
qed

lemma generate_from_default:
  assumes "lead_texts_are_strings lead_data"
  shows "generate_rejection_email default_templates EMAIL_ADDRESS lead_data ''general'' =
           Some (default_general_template @ signature_block (get_sender_name EMAIL_ADDRESS))"
proof -
  from assms obtain n c where n: "dict_get lead_data ''name'' (PStr '''') = PStr n"
    and c: "dict_get lead_data ''company_name'' (PStr '''') = PStr c"
    by (auto simp: lead_texts_are_strings_def is_str_def split: pyval.splits)
  have tpl: "default_general_template \<noteq> []"
    by (simp add: default_general_template_def)
  have r1: "py_replace ''{lead_name}'' n default_general_template = default_general_template"
    by (rule py_replace_absent) (simp_all add: default_template_no_lead_name)
  have r2: "py_replace ''{company_name}'' c default_general_template = default_general_template"
    by (rule py_replace_absent) (simp_all add: default_template_no_company_name)
  have r3: "py_replace ''{sender_name}'' (get_sender_name EMAIL_ADDRESS) default_general_template
              = default_general_template"
    by (rule py_replace_absent) (simp_all add: default_template_no_sender_name)
  show ?thesis
    by (simp add: generate_rejection_email_def rejection_email_body_def default_templates_def
          dict_get_def [of "[(''general'', PStr default_general_template)]"]
          tpl n c str_replace_def r1 r2 r3)
qed

lemma load_templates_loop_none:
  "\<forall>p \<in> set paths. read_json p = None \<Longrightarrow> load_templates_loop read_json templates paths = templates"
  by (induction paths) auto

text \<open>
  C7. When no candidate path yields a file that loads, the table of templates is the
  built-in fallback, which is not empty, and for the template type \<open>general\<close>
  \<open>generate_rejection_email\<close> returns a body, the fallback template followed by the
  signature block, for every lead whose name and company name are strings or absent.
\<close>

theorem fallback_templates_give_email:
  assumes "\<forall>p \<in> set (possible_paths script_dir). read_json p = None"
  shows "load_email_templates read_json script_dir = default_templates
         \<and> truthy default_templates
         \<and> (lead_texts_are_strings lead_data \<longrightarrow>
              generate_rejection_email (load_email_templates read_json script_dir)
                  EMAIL_ADDRESS lead_data ''general''
                = Some (default_general_template @ signature_block (get_sender_name EMAIL_ADDRESS)))"
proof -
  have loaded: "load_email_templates read_json script_dir = default_templates"
    using load_templates_loop_none [OF assms, of "PDict []"]
    by (simp add: load_email_templates_def)
  moreover have "truthy default_templates"
    by (simp add: default_templates_def)
  ultimately show ?thesis
    using generate_from_default by simp
qed

theorem fallback_templates_give_email_witness:
  "load_email_templates no_template_files ''/app'' = default_templates
   \<and> generate_rejection_email (load_email_templates no_template_files ''/app'')
         (PStr ''janed@example.com'') ada_lead ''general''
       = Some (default_general_template @ signature_block ''Jane'')"
proof -
  have none: "\<forall>p \<in> set (possible_paths ''/app''). no_template_files p = None"
    by (simp add: no_template_files_def)
  have strs: "lead_texts_are_strings ada_lead"
    by (simp add: lead_texts_are_strings_def ada_lead_def dict_get_def is_str_def)
  have name: "get_sender_name (PStr ''janed@example.com'') = ''Jane''"
    by (simp add: get_sender_name_def sender_first_name_def
          upper_char_def lower_char_def upper_letters_def lower_letters_def)
  note fallback = fallback_templates_give_email [OF none, of ada_lead "PStr ''janed@example.com''"]
  from fallback have loaded: "load_email_templates no_template_files ''/app'' = default_templates"
    by blast
  from fallback strs
  have "generate_rejection_email (load_email_templates no_template_files ''/app'')
          (PStr ''janed@example.com'') ada_lead ''general''
        = Some (default_general_template @ signature_block (get_sender_name (PStr ''janed@example.com'')))"
    by blast
  with loaded name show ?thesis
    by simp
qed

text \<open>
  C3. The built-in fallback template greets with the placeholder \<open>{first_name}\<close>,
  which \<open>generate_rejection_email\<close> does not replace: the body returned for the template
  type \<open>general\<close> still contains it.
\<close>

theorem generate_rejection_email_keeps_first_name:
  "generate_rejection_email default_templates (PStr ''janed@example.com'') ada_lead ''general''
     = Some (default_general_template @ signature_block ''Jane'')
   \<and> py_in ''{first_name}'' (default_general_template @ signature_block ''Jane'')"
proof -
  have strs: "lead_texts_are_strings ada_lead"
    by (simp add: lead_texts_are_strings_def ada_lead_def dict_get_def is_str_def)
  have name: "get_sender_name (PStr ''janed@example.com'') = ''Jane''"
    by (simp add: get_sender_name_def sender_first_name_def
          upper_char_def lower_char_def upper_letters_def lower_letters_def)
  have "generate_rejection_email default_templates (PStr ''janed@example.com'') ada_lead ''general''
     = Some (default_general_template @ signature_block ''Jane'')"
    using generate_from_default [OF strs, of "PStr ''janed@example.com''"] name by simp
  moreover have "py_in ''{first_name}'' (default_general_template @ signature_block ''Jane'')"
    using default_template_first_name by (rule py_in_append)
  ultimately show ?thesis by simp
qed

section \<open>Properties of the dates\<close>

lemma format_date_number:
  "t \<noteq> 0 \<Longrightarrow>
     format_date clk (PNum t) =
       (case fromtimestamp clk (if 1000000000000 < t then t / 1000 else t) of
          Inr date \<Rightarrow> strftime clk date
        | Inl _ \<Rightarrow> ''Date format error'')"
  by (simp add: format_date_def format_date_body_def as_number_def Let_def split: sum.splits)

lemma days_in_copper_number:
  "t \<noteq> 0 \<Longrightarrow>
     days_in_copper clk (PNum t) =
       (case fromtimestamp clk (if 1000000000000 < t then t / 1000 else t) of
          Inr created \<Rightarrow> PNum (of_int ((now clk - created) div 86400000000))
        | Inl _ \<Rightarrow> PStr ''Unknown'')"
  by (simp add: days_in_copper_def days_in_copper_body_def as_number_def timedelta_days_def Let_def
        split: sum.splits)

lemma utc_clock_fields:
  "fromtimestamp (utc_clock current) = utc_fromtimestamp"
  "now (utc_clock current) = current"
  "strftime (utc_clock current) = utc_strftime"
  by (simp_all add: utc_clock_def)

lemma utc_fromtimestamp_example: "utc_fromtimestamp 1700000000 = Inr 1700000000000000"
  by code_simp

lemma utc_strftime_example: "utc_strftime 1700000000000000 = ''2023-11-14 22:13:20''"
  by code_simp

text \<open>
  C5. For every number \<open>t\<close> other than 0, \<open>format_date\<close> and \<open>days_in_copper\<close>
  convert \<open>t / 1000\<close> when \<open>t > 10\<^sup>1\<^sup>2\<close> and \<open>t\<close> itself otherwise; a falsy
  timestamp gives the fixed \<open>Unknown date\<close> and \<open>Unknown\<close>.
\<close>

theorem timestamp_milliseconds_threshold:
  "(t \<noteq> 0 \<longrightarrow>
      format_date clk (PNum t) =
        (case fromtimestamp clk (if 1000000000000 < t then t / 1000 else t) of
           Inr date \<Rightarrow> strftime clk date
         | Inl _ \<Rightarrow> ''Date format error'')
      \<and> days_in_copper clk (PNum t) =
        (case fromtimestamp clk (if 1000000000000 < t then t / 1000 else t) of
           Inr created \<Rightarrow> PNum (of_int (timedelta_days (now clk - created)))
         | Inl _ \<Rightarrow> PStr ''Unknown''))
   \<and> (\<not> truthy v \<longrightarrow>
         format_date clk v = ''Unknown date'' \<and> days_in_copper clk v = PStr ''Unknown'')"
proof (intro conjI impI)
  assume "t \<noteq> 0"
  then show "format_date clk (PNum t) =
        (case fromtimestamp clk (if 1000000000000 < t then t / 1000 else t) of
           Inr date \<Rightarrow> strftime clk date
         | Inl _ \<Rightarrow> ''Date format error'')"
    by (rule format_date_number)
next
  assume "t \<noteq> 0"
  from days_in_copper_number [OF this]
  show "days_in_copper clk (PNum t) =
        (case fromtimestamp clk (if 1000000000000 < t then t / 1000 else t) of
           Inr created \<Rightarrow> PNum (of_int (timedelta_days (now clk - created)))
         | Inl _ \<Rightarrow> PStr ''Unknown'')"
    by (simp only: timedelta_days_def)
next
  assume "\<not> truthy v"
  then show "format_date clk v = ''Unknown date''"
    by (simp add: format_date_def)
next
  assume "\<not> truthy v"
  then show "days_in_copper clk v = PStr ''Unknown''"
    by (simp add: days_in_copper_def)
qed

theorem timestamp_milliseconds_threshold_witness:
  "format_date (utc_clock 1793793600000000) (PNum 1000000000001) = ''2001-09-09 01:46:40''
   \<and> format_date (utc_clock 1793793600000000) (PNum 1000000000000) = ''Date format error''
   \<and> days_in_copper (utc_clock 1793793600000000) (PNum 1000000000001) = PNum 9187
   \<and> format_date (utc_clock 1793793600000000) (PNum 0) = ''Unknown date''
   \<and> days_in_copper (utc_clock 1793793600000000) (PNum 0) = PStr ''Unknown''"
proof -
  have above: "utc_fromtimestamp (1000000000001 / 1000) = Inr 1000000000001000"
    by code_simp
  have shown: "utc_strftime 1000000000001000 = ''2001-09-09 01:46:40''"
    by code_simp
  have days: "timedelta_days 793793599999000 = 9187"
    by (simp add: timedelta_days_def)
  have at: "utc_fromtimestamp 1000000000000 = Inl ValueError"
    by code_simp
  have falsy: "\<not> truthy (PNum 0)"
    by simp
  from timestamp_milliseconds_threshold [of 1000000000001 "utc_clock 1793793600000000" "PNum 0"]
    timestamp_milliseconds_threshold [of 1000000000000 "utc_clock 1793793600000000" "PNum 0"]
  show ?thesis
    by (simp add: utc_clock_fields above shown days at)
qed

lemma days_in_copper_zero: "days_in_copper clk (PNum 0) = PStr ''Unknown''"
  by (simp add: days_in_copper_def)

lemma zone_clock_fields:
  "fromtimestamp (zone_clock offset current) = zone_fromtimestamp offset"
  "now (zone_clock offset current) = current + offset current"
  by (simp_all add: zone_clock_def)

lemma zone_fromtimestamp_Inr:
  "zone_fromtimestamp offset s = Inr local_created \<Longrightarrow>
     local_created = round_half_even (s * 1000000) + offset (round_half_even (s * 1000000))"
  by (simp add: zone_fromtimestamp_def Let_def split: if_splits)

lemma days_in_zone:
  assumes "t \<noteq> 0"
    and "zone_fromtimestamp offset (if 1000000000000 < t then t / 1000 else t) = Inr local_created"
    and "offset current = offset (timestamp_instant t)"
  shows "days_in_copper (zone_clock offset current) (PNum t) =
           PNum (of_int ((current - timestamp_instant t) div 86400000000))"
proof -
  from zone_fromtimestamp_Inr [OF assms(2)]
  have "local_created = timestamp_instant t + offset (timestamp_instant t)"
    by (simp add: timestamp_instant_def)
  with assms(3) have "current + offset current - local_created = current - timestamp_instant t"
    by simp
  with assms(1,2) show ?thesis
    by (simp add: days_in_copper_number zone_clock_fields)
qed

lemma example_instant: "timestamp_instant 1700000000000 = 1700000000000000"
  by code_simp

lemma example_in_range:
  assumes "\<bar>offset 1700000000000000\<bar> \<le> 86400000000"
  shows "zone_fromtimestamp offset (if 1000000000000 < (1700000000000 :: rat) then 1700000000000 / 1000 else 1700000000000)
           = Inr (1700000000000000 + offset 1700000000000000)"
proof -
  have "round_half_even (1700000000 * 1000000) = 1700000000000000"
    by code_simp
  then have "round_half_even 1700000000000000 = 1700000000000000"
    by simp
  moreover from assms have "- 86400000000 \<le> offset 1700000000000000"
    and "offset 1700000000000000 \<le> 86400000000"
    by linarith+
  ultimately show ?thesis
    by (simp add: zone_fromtimestamp_def Let_def)
qed

text \<open>
  C4, as amended. For every number \<open>t\<close> other than 0 that the conversion accepts,
  \<open>days_in_copper\<close> returns the whole days, rounded down, between the two naive local
  times that the clock reads: now, and at the instant of \<open>t\<close> (milliseconds when
  \<open>t > 10\<^sup>1\<^sup>2\<close>). In a time zone whose offset from UTC is the same at both
  instants, these are the whole days elapsed between the creation instant and now; so
  for the lead created at \<open>1700000000000\<close>, the instant 2023-11-14 22:13:20 UTC.
  For the timestamp 0, and for one that the conversion rejects, the result is
  \<open>Unknown\<close>, on every clock.
\<close>

theorem days_in_copper_whole_days:
  "(t \<noteq> 0 \<and> fromtimestamp clk (if 1000000000000 < t then t / 1000 else t) = Inr created \<longrightarrow>
      days_in_copper clk (PNum t) = PNum (of_int ((now clk - created) div 86400000000)))
   \<and> (t \<noteq> 0 \<and> fromtimestamp clk (if 1000000000000 < t then t / 1000 else t) = Inl e \<longrightarrow>
        days_in_copper clk (PNum t) = PStr ''Unknown'')
   \<and> days_in_copper clk (PNum 0) = PStr ''Unknown''
   \<and> (t \<noteq> 0
        \<and> zone_fromtimestamp offset (if 1000000000000 < t then t / 1000 else t) = Inr local_created
        \<and> offset current = offset (timestamp_instant t) \<longrightarrow>
        days_in_copper (zone_clock offset current) (PNum t) =
          PNum (of_int ((current - timestamp_instant t) div 86400000000)))
   \<and> (\<bar>offset 1700000000000000\<bar> \<le> 86400000000
        \<and> offset current = offset 1700000000000000 \<longrightarrow>
        days_in_copper (zone_clock offset current) (PNum 1700000000000) =
          PNum (of_int ((current - 1700000000000000) div 86400000000)))
   \<and> timestamp_instant 1700000000000 = 1700000000000000
   \<and> utc_strftime 1700000000000000 = ''2023-11-14 22:13:20''"
proof (intro conjI impI)
  assume "t \<noteq> 0 \<and> fromtimestamp clk (if 1000000000000 < t then t / 1000 else t) = Inr created"
  then show "days_in_copper clk (PNum t) = PNum (of_int ((now clk - created) div 86400000000))"
    by (simp add: days_in_copper_number)
next
  assume "t \<noteq> 0 \<and> fromtimestamp clk (if 1000000000000 < t then t / 1000 else t) = Inl e"
  then show "days_in_copper clk (PNum t) = PStr ''Unknown''"
    by (simp add: days_in_copper_number)
next
  show "days_in_copper clk (PNum 0) = PStr ''Unknown''"
    by (rule days_in_copper_zero)
next
  assume "t \<noteq> 0
        \<and> zone_fromtimestamp offset (if 1000000000000 < t then t / 1000 else t) = Inr local_created
        \<and> offset current = offset (timestamp_instant t)"
  then show "days_in_copper (zone_clock offset current) (PNum t) =
          PNum (of_int ((current - timestamp_instant t) div 86400000000))"
    using days_in_zone by blast
next
  assume a: "\<bar>offset 1700000000000000\<bar> \<le> 86400000000
        \<and> offset current = offset 1700000000000000"
  have nonzero: "(1700000000000 :: rat) \<noteq> 0"
    by simp
  from a have same: "offset current = offset (timestamp_instant 1700000000000)"
    by (simp only: example_instant)
  from a have "zone_fromtimestamp offset
                 (if 1000000000000 < (1700000000000 :: rat) then 1700000000000 / 1000 else 1700000000000)
               = Inr (1700000000000000 + offset 1700000000000000)"
    using example_in_range by blast
  from days_in_zone [OF nonzero this same]
  show "days_in_copper (zone_clock offset current) (PNum 1700000000000) =
          PNum (of_int ((current - 1700000000000000) div 86400000000))"
    by (simp only: example_instant)
next
  show "timestamp_instant 1700000000000 = 1700000000000000"
    by (rule example_instant)
next
  show "utc_strftime 1700000000000000 = ''2023-11-14 22:13:20''"
    by (rule utc_strftime_example)
qed

theorem days_in_copper_whole_days_witness:
  "days_in_copper (zone_clock summer_2026_offset 1793793600000000) (PNum 1700000000000) = PNum 1085
   \<and> days_in_copper (utc_clock 1793793600000000) (PNum 1700000000000) = PNum 1085
   \<and> days_in_copper (utc_clock 1793793600000000) (PNum 1000000000000) = PStr ''Unknown''"
proof -
  have winter: "\<bar>summer_2026_offset 1700000000000000\<bar> \<le> 86400000000
        \<and> summer_2026_offset 1793793600000000 = summer_2026_offset 1700000000000000"
    by (simp add: summer_2026_offset_def)
  have days: "(1793793600000000 - 1700000000000000) div 86400000000 = (1085 :: int)"
    by simp
  note zone = days_in_copper_whole_days
    [where offset = summer_2026_offset and current = 1793793600000000]
  from zone winter
  have "days_in_copper (zone_clock summer_2026_offset 1793793600000000) (PNum 1700000000000) =
          PNum (of_int ((1793793600000000 - 1700000000000000) div 86400000000))"
    by blast
  then have one: "days_in_copper (zone_clock summer_2026_offset 1793793600000000) (PNum 1700000000000)
                    = PNum 1085"
    by (simp only: days of_int_numeral)
  have created: "fromtimestamp (utc_clock 1793793600000000)
                   (if 1000000000000 < (1700000000000 :: rat) then 1700000000000 / 1000 else 1700000000000)
                 = Inr 1700000000000000"
    by (simp add: utc_clock_fields utc_fromtimestamp_example)
  have nonzero: "(1700000000000 :: rat) \<noteq> 0"
    by simp
  note utc = days_in_copper_whole_days
    [where t = 1700000000000 and clk = "utc_clock 1793793600000000" and created = 1700000000000000]
  from utc nonzero created
  have "days_in_copper (utc_clock 1793793600000000) (PNum 1700000000000) =
          PNum (of_int ((now (utc_clock 1793793600000000) - 1700000000000000) div 86400000000))"
    by blast
  then have two: "days_in_copper (utc_clock 1793793600000000) (PNum 1700000000000) = PNum 1085"
    by (simp add: utc_clock_fields)
  have rejected: "fromtimestamp (utc_clock 1793793600000000)
                   (if 1000000000000 < (1000000000000 :: rat) then 1000000000000 / 1000 else 1000000000000)
                 = Inl ValueError"
  proof -
    have "utc_fromtimestamp 1000000000000 = Inl ValueError"
      by code_simp
    then show ?thesis
      by (simp add: utc_clock_fields)
  qed
  have nonzero': "(1000000000000 :: rat) \<noteq> 0"
    by simp
  note out = days_in_copper_whole_days
    [where t = 1000000000000 and clk = "utc_clock 1793793600000000" and e = ValueError]
  from out nonzero' rejected
  have three: "days_in_copper (utc_clock 1793793600000000) (PNum 1000000000000) = PStr ''Unknown''"
    by blast
  from one two three show ?thesis
    by simp
qed

text \<open>
  Two inputs at which the whole days between now and the creation instant are not what
  \<open>days_in_copper\<close> returns. With the clock an hour ahead of UTC now (2026-07-04
  21:43:20 UTC) and at UTC when the lead was created (2023-11-14 22:13:20 UTC), 962
  whole days have elapsed and the result is 963. The timestamp 0 is the instant
  1970-01-01 00:00:00 UTC, 20761 whole days before the current time, and the result
  is \<open>Unknown\<close>.
\<close>

theorem days_in_copper_counterexample:
  "days_in_copper (zone_clock summer_2026_offset 1783201400000000) (PNum 1700000000000) = PNum 963
   \<and> (1783201400000000 - 1700000000000000) div 86400000000 = (962 :: int)
   \<and> utc_fromtimestamp 0 = Inr 0
   \<and> (1793793600000000 - 0) div 86400000000 = (20761 :: int)
   \<and> days_in_copper (utc_clock 1793793600000000) (PNum 0) = PStr ''Unknown''
   \<and> days_in_copper (utc_clock 1793793600000000) (PNum 0) \<noteq> PNum 20761"
proof -
  have created: "zone_fromtimestamp summer_2026_offset
                   (if 1000000000000 < (1700000000000 :: rat) then 1700000000000 / 1000 else 1700000000000)
                 = Inr 1700000000000000"
    using example_in_range [of summer_2026_offset] by (simp add: summer_2026_offset_def)
  have current: "now (zone_clock summer_2026_offset 1783201400000000) = 1783205000000000"
    by (simp add: zone_clock_fields summer_2026_offset_def)
  have "days_in_copper (zone_clock summer_2026_offset 1783201400000000) (PNum 1700000000000) = PNum 963"
    using created current by (simp add: days_in_copper_number zone_clock_fields)
  moreover have "utc_fromtimestamp 0 = Inr 0"
    by code_simp
  moreover have "days_in_copper (utc_clock 1793793600000000) (PNum 0) = PStr ''Unknown''"
    by (simp add: days_in_copper_def)
  ultimately show ?thesis
    by simp
qed

section \<open>Properties of sending an email\<close>

lemma run_steps_made:
  "run_steps world steps made = (r, tr) \<Longrightarrow> \<exists>k. tr = made @ take k steps"
proof (induction steps arbitrary: made)
  case Nil
  then show ?case by simp
next
  case (Cons step steps)
  show ?case
  proof (cases "world step")
    case None
    with Cons.prems have "run_steps world steps (made @ [step]) = (r, tr)"
      by simp
    from Cons.IH [OF this] obtain k where "tr = (made @ [step]) @ take k steps"
      by blast
    then have "tr = made @ take (Suc k) (step # steps)"
      by simp
    then show ?thesis by blast
  next
    case (Some e)
    with Cons.prems have "tr = made @ take 1 (step # steps)"
      by simp
    then show ?thesis by blast
  qed
qed

lemma run_steps_None:
  "run_steps world steps made = (None, tr) \<Longrightarrow>
     tr = made @ steps \<and> (\<forall>step \<in> set steps. world step = None)"
proof (induction steps arbitrary: made)
  case Nil
  then show ?case by simp
next
  case (Cons step steps)
  show ?case
  proof (cases "world step")
    case None
    with Cons.prems have "run_steps world steps (made @ [step]) = (None, tr)"
      by simp
    from Cons.IH [OF this] None show ?thesis
      by simp
  next
    case (Some e)
    with Cons.prems show ?thesis
      by simp
  qed
qed

lemma run_steps_raise:
  "run_steps world steps made = (r, made @ new) \<Longrightarrow> step \<in> set new \<Longrightarrow>
     world step = Some e \<Longrightarrow> r = Some e"
proof (induction steps arbitrary: made new)
  case Nil
  then show ?case by simp
next
  case (Cons first steps)
  show ?case
  proof (cases "world first")
    case (Some e')
    with Cons.prems(1) have "new = [first]" and "r = Some e'"
      by simp_all
    with Cons.prems(2,3) Some show ?thesis
      by simp
  next
    case None
    with Cons.prems(1) have run: "run_steps world steps (made @ [first]) = (r, made @ new)"
      by simp
    from run_steps_made [OF run] obtain k where "made @ new = (made @ [first]) @ take k steps"
      by blast
    then have new: "new = first # take k steps"
      by simp
    with Cons.prems(2,3) None have "step \<in> set (take k steps)"
      by auto
    moreover from run new have "run_steps world steps (made @ [first]) = (r, (made @ [first]) @ take k steps)"
      by simp
    ultimately show ?thesis
      using Cons.IH Cons.prems(3) by blast
  qed
qed

lemma Exception_in_bases: "Exception \<in> set (bases cls)"
  by (cases cls) simp_all

lemma except_chain_send_email:
  "\<exists>msg. except_chain send_email_clauses e = Inr (False, msg)"
proof (cases e)
  case (Raised cls msg)
  then show ?thesis
    using Exception_in_bases [of cls] by (simp add: send_email_clauses_def)
qed

lemma authentication_message_head: "take 2 (authentication_message e) = ''Au''"
  by (simp add: authentication_message_def gmail_authentication_help_def)

lemma sender_refused_message_head: "take 2 (sender_refused_message e) = ''Se''"
  by (simp add: sender_refused_message_def)

lemma recipients_refused_message_head: "take 2 (recipients_refused_message e) = ''Re''"
  by (simp add: recipients_refused_message_def)

lemma smtp_error_message_head: "take 2 (smtp_error_message e) = ''SM''"
  by (simp add: smtp_error_message_def)

lemma failed_message_head: "take 2 (failed_message e) = ''Fa''"
  by (simp add: failed_message_def)

lemmas message_heads =
  authentication_message_head sender_refused_message_head recipients_refused_message_head
  smtp_error_message_head failed_message_head

lemma catching_clause_send_email:
  "\<exists>c \<in> {SMTPAuthenticationError, SMTPSenderRefused, SMTPRecipientsRefused, SMTPException, Exception}.
     catching_clause send_email_clauses e = Some c
     \<and> except_chain send_email_clauses e = Inr (False, clause_message c e)"
proof (cases e)
  case (Raised cls msg)
  then show ?thesis
    by (cases cls) (simp_all add: send_email_clauses_def clause_message_def)
qed

lemma clause_message_head:
  "c \<in> {SMTPAuthenticationError, SMTPSenderRefused, SMTPRecipientsRefused, SMTPException, Exception} \<Longrightarrow>
     take 2 (clause_message c e) =
       (if c = SMTPAuthenticationError then ''Au''
        else if c = SMTPSenderRefused then ''Se''
        else if c = SMTPRecipientsRefused then ''Re''
        else if c = SMTPException then ''SM''
        else ''Fa'')"
  by (auto simp: clause_message_def message_heads)

lemma clause_messages_differ:
  assumes "catching_clause send_email_clauses e1 \<noteq> catching_clause send_email_clauses e2"
  shows "except_chain send_email_clauses e1 \<noteq> except_chain send_email_clauses e2"
proof -
  let ?handled = "{SMTPAuthenticationError, SMTPSenderRefused, SMTPRecipientsRefused, SMTPException, Exception}"
  from catching_clause_send_email [of e1] obtain c1 where c1: "c1 \<in> ?handled"
    and k1: "catching_clause send_email_clauses e1 = Some c1"
    and m1: "except_chain send_email_clauses e1 = Inr (False, clause_message c1 e1)"
    by blast
  from catching_clause_send_email [of e2] obtain c2 where c2: "c2 \<in> ?handled"
    and k2: "catching_clause send_email_clauses e2 = Some c2"
    and m2: "except_chain send_email_clauses e2 = Inr (False, clause_message c2 e2)"
    by blast
  from assms k1 k2 have "c1 \<noteq> c2"
    by simp
  with c1 c2 have "take 2 (clause_message c1 e1) \<noteq> take 2 (clause_message c2 e2)"
    unfolding clause_message_head [OF c1] clause_message_head [OF c2] by auto
  then have "clause_message c1 e1 \<noteq> clause_message c2 e2"
    by auto
  with m1 m2 show ?thesis
    by simp
qed

lemma send_steps_distinct:
  "distinct (send_steps EMAIL_ADDRESS EMAIL_PASSWORD recipient_email subject body cc_email)"
  by (simp add: send_steps_def)

lemma send_steps_one_sendmail:
  "length (filter is_sendmail
     (send_steps EMAIL_ADDRESS EMAIL_PASSWORD recipient_email subject body cc_email)) = 1"
  by (simp add: send_steps_def)

lemma filter_take_le: "length (filter P (take k xs)) \<le> length (filter P xs)"
proof -
  have "length (filter P xs) = length (filter P (take k xs)) + length (filter P (drop k xs))"
    by (metis append_take_drop_id filter_append length_append)
  then show ?thesis by simp
qed

lemma run_steps_all_accepted:
  "\<forall>step \<in> set steps. world step = None \<Longrightarrow> run_steps world steps made = (None, made @ steps)"
  by (induction steps arbitrary: made) simp_all

lemma run_steps_some_raise:
  "\<exists>step \<in> set steps. world step \<noteq> None \<Longrightarrow> \<exists>e tr. run_steps world steps made = (Some e, tr)"
proof (induction steps arbitrary: made)
  case Nil
  then show ?case by simp
next
  case (Cons step steps)
  show ?case
  proof (cases "world step")
    case (Some e)
    then show ?thesis by simp
  next
    case None
    with Cons.prems have "\<exists>s \<in> set steps. world s \<noteq> None"
      by auto
    from Cons.IH [OF this, of "made @ [step]"] None show ?thesis
      by simp
  qed
qed

lemma run_steps_Some:
  "run_steps world steps made = (Some e, tr) \<Longrightarrow> tr \<noteq> [] \<and> world (last tr) = Some e"
proof (induction steps arbitrary: made)
  case Nil
  then show ?case by simp
next
  case (Cons step steps)
  show ?case
  proof (cases "world step")
    case (Some e')
    with Cons.prems show ?thesis by auto
  next
    case None
    with Cons.prems have "run_steps world steps (made @ [step]) = (Some e, tr)"
      by simp
    from Cons.IH [OF this] show ?thesis .
  qed
qed

lemma send_email_messages:
  "except_chain send_email_clauses (Raised cls msg) =
     Inr (False,
          if cls = SMTPAuthenticationError then
            (if py_in ''535'' msg then gmail_authentication_help
             else ''Authentication failed: '' @ msg @ ''. Please check your email credentials.'')
          else if cls = SMTPSenderRefused then
            ''Sender refused: '' @ msg @ ''. This may be due to restrictions on your Gmail account.''
          else if cls = SMTPRecipientsRefused then
            ''Recipient(s) refused: '' @ msg @ ''. Please check the recipient email address.''
          else if cls \<in> {SMTPException, SMTPNotSupportedError, SMTPServerDisconnected,
                         SMTPResponseException, SMTPDataError, SMTPConnectError, SMTPHeloError}
          then ''SMTP error: '' @ msg
          else ''Failed to send email: '' @ msg)"
  by (cases cls)
     (simp_all add: send_email_clauses_def authentication_message_def sender_refused_message_def
        recipients_refused_message_def smtp_error_message_def failed_message_def)

text \<open>
  C6. \<open>send_email\<close> never propagates an exception: it returns a pair for every input and
  every behaviour of the mail server. It returns \<open>False\<close> with the fixed message, and
  makes no call, when a credential is missing or the recipient is empty. Otherwise it
  makes the calls of the block in order, up to the first that raises. When a call
  raises, it returns \<open>False\<close> with the message of the clause that catches the
  exception, which is written out for every class, and clauses of different classes give
  different messages. It returns \<open>True\<close>, with the success message, exactly when no
  call raises; then every call was made, among them the one \<open>sendmail\<close> to the
  recipient and the address in copy, which did not raise. No call is made twice, and
  mail is sent at most once.
\<close>

theorem send_email_never_raises:
  fixes EMAIL_ADDRESS EMAIL_PASSWORD recipient_email subject body cc_email :: pyval
    and steps :: "smtp_step list"
  defines "steps \<equiv>
     [Compose EMAIL_ADDRESS recipient_email subject cc_email body,
      Connect,
      SetDebuglevel,
      StartTLS,
      Login EMAIL_ADDRESS EMAIL_PASSWORD,
      AsString,
      Sendmail EMAIL_ADDRESS
        (if truthy cc_email then [recipient_email, cc_email] else [recipient_email]),
      Quit]"
  assumes "send_email EMAIL_ADDRESS EMAIL_PASSWORD world recipient_email subject body cc_email
             = (res, made)"
  shows "(\<exists>ok msg. res = Inr (ok, msg))
       \<and> (\<not> truthy EMAIL_ADDRESS \<or> \<not> truthy EMAIL_PASSWORD \<longrightarrow>
            res = Inr (False, ''Email credentials not configured. Please check your Streamlit secrets.'')
            \<and> made = [])
       \<and> (truthy EMAIL_ADDRESS \<and> truthy EMAIL_PASSWORD \<and> \<not> truthy recipient_email \<longrightarrow>
            res = Inr (False, ''No recipient email provided'') \<and> made = [])
       \<and> (\<exists>k. made = take k steps)
       \<and> (\<forall>step e. step \<in> set made \<and> world step = Some e \<longrightarrow>
            (\<exists>msg. res = Inr (False, msg) \<and> except_chain send_email_clauses e = Inr (False, msg)))
       \<and> (truthy EMAIL_ADDRESS \<and> truthy EMAIL_PASSWORD \<and> truthy recipient_email
            \<and> (\<exists>step \<in> set steps. world step \<noteq> None) \<longrightarrow>
            (\<exists>msg. res = Inr (False, msg)) \<and> (\<exists>step \<in> set made. world step \<noteq> None))
       \<and> (truthy EMAIL_ADDRESS \<and> truthy EMAIL_PASSWORD \<and> truthy recipient_email
            \<and> (\<forall>step \<in> set steps. world step = None) \<longrightarrow>
            res = Inr (True, ''Email sent successfully!'') \<and> made = steps)
       \<and> (\<forall>msg. res = Inr (True, msg) \<longrightarrow>
            msg = ''Email sent successfully!''
            \<and> made = steps
            \<and> made = send_steps EMAIL_ADDRESS EMAIL_PASSWORD recipient_email subject body cc_email
            \<and> (\<forall>step \<in> set made. world step = None)
            \<and> Sendmail EMAIL_ADDRESS
                 (if truthy cc_email then [recipient_email, cc_email] else [recipient_email])
                 \<in> set made
            \<and> world (Sendmail EMAIL_ADDRESS
                 (if truthy cc_email then [recipient_email, cc_email] else [recipient_email])) = None
            \<and> length (filter is_sendmail made) = 1)
       \<and> distinct made
       \<and> length (filter is_sendmail made) \<le> 1
       \<and> (\<forall>cls msg. except_chain send_email_clauses (Raised cls msg) =
            Inr (False,
                 if cls = SMTPAuthenticationError then
                   (if py_in ''535'' msg then gmail_authentication_help
                    else ''Authentication failed: '' @ msg @ ''. Please check your email credentials.'')
                 else if cls = SMTPSenderRefused then
                   ''Sender refused: '' @ msg @ ''. This may be due to restrictions on your Gmail account.''
                 else if cls = SMTPRecipientsRefused then
                   ''Recipient(s) refused: '' @ msg @ ''. Please check the recipient email address.''
                 else if cls \<in> {SMTPException, SMTPNotSupportedError, SMTPServerDisconnected,
                                SMTPResponseException, SMTPDataError, SMTPConnectError, SMTPHeloError}
                 then ''SMTP error: '' @ msg
                 else ''Failed to send email: '' @ msg))
       \<and> (\<forall>e1 e2. catching_clause send_email_clauses e1 \<noteq> catching_clause send_email_clauses e2 \<longrightarrow>
            except_chain send_email_clauses e1 \<noteq> except_chain send_email_clauses e2)"
proof -
  have steps: "steps = send_steps EMAIL_ADDRESS EMAIL_PASSWORD recipient_email subject body cc_email"
    by (simp add: steps_def send_steps_def)
  have steps_distinct: "distinct steps"
    unfolding steps by (rule send_steps_distinct)
  have steps_sendmail: "length (filter is_sendmail steps) = 1"
    unfolding steps by (rule send_steps_one_sendmail)
  have steps_has: "Sendmail EMAIL_ADDRESS
                 (if truthy cc_email then [recipient_email, cc_email] else [recipient_email])
                 \<in> set steps"
    by (simp add: steps_def)
  note messages = send_email_messages clause_messages_differ
  show ?thesis
  proof (cases "truthy EMAIL_ADDRESS \<and> truthy EMAIL_PASSWORD \<and> truthy recipient_email")
    case False
    with assms(2) have made: "made = []"
      and res: "res = Inr (False, if \<not> truthy EMAIL_ADDRESS \<or> \<not> truthy EMAIL_PASSWORD
                   then ''Email credentials not configured. Please check your Streamlit secrets.''
                   else ''No recipient email provided'')"
      by (auto simp: send_email_def split: if_splits)
    have prefix: "\<exists>k. made = take k steps"
      using made by (intro exI [of _ 0]) simp
    show ?thesis
      apply (intro conjI)
      subgoal using res by auto
      subgoal using made res by auto
      subgoal using False made res by auto
      subgoal by (rule prefix)
      subgoal using made by simp
      subgoal using False by blast
      subgoal using False by blast
      subgoal using res by auto
      subgoal using made by simp
      subgoal using made by simp
      subgoal using send_email_messages by blast
      subgoal using clause_messages_differ by blast
      done
  next
    case True
    obtain r where run: "run_steps world steps [] = (r, made)"
      and res: "res = (case r of None \<Rightarrow> Inr (True, ''Email sent successfully!'')
                       | Some e \<Rightarrow> except_chain send_email_clauses e)"
      using assms(2) True unfolding steps
      by (cases "run_steps world
                   (send_steps EMAIL_ADDRESS EMAIL_PASSWORD recipient_email subject body cc_email) []")
         (auto simp: send_email_def split: option.splits)
    from run_steps_made [OF run] obtain k where made: "made = take k steps"
      by auto
    have prefix: "\<exists>k. made = take k steps"
      using made by blast
    have dist: "distinct made"
      unfolding made using steps_distinct by (rule distinct_take)
    have once: "length (filter is_sendmail made) \<le> 1"
      unfolding made using filter_take_le [of is_sendmail k steps] by (simp add: steps_sendmail)
    have pair: "\<exists>ok msg. res = Inr (ok, msg)"
    proof (cases r)
      case None
      with res show ?thesis by auto
    next
      case (Some e)
      with res except_chain_send_email [of e] show ?thesis by auto
    qed
    have raise: "\<exists>msg. res = Inr (False, msg) \<and> except_chain send_email_clauses e = Inr (False, msg)"
      if "step \<in> set made" and "world step = Some e" for step e
    proof -
      from run have "run_steps world steps [] = (r, [] @ made)"
        by simp
      from run_steps_raise [OF this that] have "r = Some e" .
      with res except_chain_send_email [of e] show ?thesis
        by auto
    qed
    have failure: "(\<exists>msg. res = Inr (False, msg)) \<and> (\<exists>step \<in> set made. world step \<noteq> None)"
      if "\<exists>step \<in> set steps. world step \<noteq> None"
    proof -
      from run_steps_some_raise [OF that, of "[]"] run obtain e where r: "r = Some e"
        by auto
      with res except_chain_send_email [of e] have one: "\<exists>msg. res = Inr (False, msg)"
        by auto
      from run r run_steps_Some [of world steps "[]" e made]
      have "\<exists>step \<in> set made. world step \<noteq> None"
        by auto
      with one show ?thesis by blast
    qed
    have all_ok: "res = Inr (True, ''Email sent successfully!'') \<and> made = steps"
      if "\<forall>step \<in> set steps. world step = None"
      using run_steps_all_accepted [OF that, of "[]"] run res by simp
    have success: "msg = ''Email sent successfully!'' \<and> made = steps
                   \<and> made = send_steps EMAIL_ADDRESS EMAIL_PASSWORD recipient_email subject body cc_email
                   \<and> (\<forall>step \<in> set made. world step = None)
                   \<and> Sendmail EMAIL_ADDRESS
                        (if truthy cc_email then [recipient_email, cc_email] else [recipient_email])
                        \<in> set made
                   \<and> world (Sendmail EMAIL_ADDRESS
                        (if truthy cc_email then [recipient_email, cc_email] else [recipient_email])) = None
                   \<and> length (filter is_sendmail made) = 1"
      if "res = Inr (True, msg)" for msg
    proof (cases r)
      case None
      with run run_steps_None [of world steps "[]" made] have "made = steps"
        and ok: "\<forall>step \<in> set steps. world step = None"
        by simp_all
      with None res that steps steps_has steps_sendmail show ?thesis
        by auto
    next
      case (Some e)
      with res that except_chain_send_email [of e] show ?thesis
        by auto
    qed
    show ?thesis
      apply (intro conjI)
      subgoal by (rule pair)
      subgoal using True by blast
      subgoal using True by blast
      subgoal by (rule prefix)
      subgoal using raise by blast
      subgoal using failure by blast
      subgoal using all_ok by blast
      subgoal using success by blast
      subgoal by (rule dist)
      subgoal by (rule once)
      subgoal using send_email_messages by blast
      subgoal using clause_messages_differ by blast
      done
  qed
qed

theorem send_email_never_raises_witness:
  "send_email (PStr ''janed@example.com'') (PStr ''secret'') accepting_world
       (PStr ''ada@example.org'') (PStr ''Hello'') (PStr ''Body'') (PStr ''cc@example.org'')
     = (Inr (True, ''Email sent successfully!''),
        [Compose (PStr ''janed@example.com'') (PStr ''ada@example.org'') (PStr ''Hello'')
           (PStr ''cc@example.org'') (PStr ''Body''),
         Connect, SetDebuglevel, StartTLS,
         Login (PStr ''janed@example.com'') (PStr ''secret''),
         AsString,
         Sendmail (PStr ''janed@example.com'') [PStr ''ada@example.org'', PStr ''cc@example.org''],
         Quit])
   \<and> send_email (PStr ''janed@example.com'') (PStr ''secret'') login_rejecting_world
       (PStr ''ada@example.org'') (PStr ''Hello'') (PStr ''Body'') PNone
     = (Inr (False, gmail_authentication_help),
        [Compose (PStr ''janed@example.com'') (PStr ''ada@example.org'') (PStr ''Hello'') PNone (PStr ''Body''),
         Connect, SetDebuglevel, StartTLS,
         Login (PStr ''janed@example.com'') (PStr ''secret'')])
   \<and> except_chain send_email_clauses
         (Raised SMTPAuthenticationError ''(535, Username and Password not accepted)'')
       = Inr (False, gmail_authentication_help)"
proof -
  let ?A = "PStr ''janed@example.com''" and ?P = "PStr ''secret''"
  let ?R = "PStr ''ada@example.org''" and ?S = "PStr ''Hello''" and ?B = "PStr ''Body''"
  let ?C = "PStr ''cc@example.org''"
  let ?e = "Raised SMTPAuthenticationError ''(535, Username and Password not accepted)''"
  let ?made = "[Compose ?A ?R ?S PNone ?B, Connect, SetDebuglevel, StartTLS, Login ?A ?P]"
  obtain res made where sent: "send_email ?A ?P accepting_world ?R ?S ?B ?C = (res, made)"
    by (cases "send_email ?A ?P accepting_world ?R ?S ?B ?C")
  have truthy: "truthy ?A \<and> truthy ?P \<and> truthy ?R" "truthy ?C"
    by simp_all
  have accepted: "\<forall>step \<in> set [Compose ?A ?R ?S ?C ?B, Connect, SetDebuglevel, StartTLS,
                     Login ?A ?P, AsString,
                     Sendmail ?A (if truthy ?C then [?R, ?C] else [?R]), Quit].
                   accepting_world step = None"
    by (simp add: accepting_world_def)
  from send_email_never_raises [OF sent]
  have "truthy ?A \<and> truthy ?P \<and> truthy ?R
        \<and> (\<forall>step \<in> set [Compose ?A ?R ?S ?C ?B, Connect, SetDebuglevel, StartTLS,
                     Login ?A ?P, AsString,
                     Sendmail ?A (if truthy ?C then [?R, ?C] else [?R]), Quit].
               accepting_world step = None) \<longrightarrow>
        res = Inr (True, ''Email sent successfully!'')
        \<and> made = [Compose ?A ?R ?S ?C ?B, Connect, SetDebuglevel, StartTLS,
                     Login ?A ?P, AsString,
                     Sendmail ?A (if truthy ?C then [?R, ?C] else [?R]), Quit]"
    by (elim conjE) assumption
  with truthy(1) accepted
  have "res = Inr (True, ''Email sent successfully!'')
        \<and> made = [Compose ?A ?R ?S ?C ?B, Connect, SetDebuglevel, StartTLS,
                     Login ?A ?P, AsString,
                     Sendmail ?A (if truthy ?C then [?R, ?C] else [?R]), Quit]"
    by blast
  with sent have success: "send_email ?A ?P accepting_world ?R ?S ?B ?C
     = (Inr (True, ''Email sent successfully!''),
        [Compose ?A ?R ?S ?C ?B, Connect, SetDebuglevel, StartTLS, Login ?A ?P, AsString,
         Sendmail ?A [?R, ?C], Quit])"
    by simp
  have run: "send_email ?A ?P login_rejecting_world ?R ?S ?B PNone
     = (Inr (False, gmail_authentication_help), ?made)"
    by (simp add: send_email_def send_steps_def login_rejecting_world_def send_email_clauses_def
          authentication_message_def)
  have step: "Login ?A ?P \<in> set ?made"
    by simp
  have raised: "login_rejecting_world (Login ?A ?P) = Some ?e"
    by (simp add: login_rejecting_world_def)
  from send_email_never_raises [OF run] step raised
  have "\<exists>msg. Inr (False, gmail_authentication_help) = Inr (False, msg)
          \<and> except_chain send_email_clauses ?e = (Inr (False, msg) :: raised + bool \<times> string)"
    by blast
  then have "except_chain send_email_clauses ?e = Inr (False, gmail_authentication_help)"
    by auto
  with success run show ?thesis
    by simp
qed

section \<open>Properties of the caches\<close>

lemma fetch_lead_details_cached:
  assumes "hashable lead_id" and "LEAD_DETAILS_CACHE st (dict_key lead_id) = Some cached"
  shows "fetch_lead_details server lead_id st = (Inr cached, st)"
  using assms by (simp add: fetch_lead_details_def)

lemma fetch_lead_details_200:
  assumes "hashable lead_id" and "LEAD_DETAILS_CACHE st (dict_key lead_id) = None"
    and "server (GetLeadDetails lead_id) = Inr response"
    and "status_code response = 200" and "json response = Some lead_details"
  shows "fetch_lead_details server lead_id st =
           (Inr lead_details,
            st\<lparr>issued := issued st @ [GetLeadDetails lead_id],
               LEAD_DETAILS_CACHE := (LEAD_DETAILS_CACHE st)(dict_key lead_id \<mapsto> lead_details)\<rparr>)"
  using assms by (simp add: fetch_lead_details_def)

lemma fetch_lead_details_error:
  assumes "hashable lead_id" and "LEAD_DETAILS_CACHE st (dict_key lead_id) = None"
    and "server (GetLeadDetails lead_id) = Inr response"
    and "status_code response \<noteq> 200"
  shows "fetch_lead_details server lead_id st =
           (Inr (PDict []), st\<lparr>issued := issued st @ [GetLeadDetails lead_id]\<rparr>)"
  using assms by (simp add: fetch_lead_details_def)

lemma fetch_lead_details_stores:
  assumes "fetch_lead_details server lead_id st = (res, st')"
    and "LEAD_DETAILS_CACHE st' \<noteq> LEAD_DETAILS_CACHE st"
  shows "\<exists>response lead_details.
           server (GetLeadDetails lead_id) = Inr response \<and> status_code response = 200
           \<and> json response = Some lead_details \<and> res = Inr lead_details
           \<and> LEAD_DETAILS_CACHE st' = (LEAD_DETAILS_CACHE st)(dict_key lead_id \<mapsto> lead_details)"
  using assms
  by (auto simp: fetch_lead_details_def Let_def split: if_splits option.splits sum.splits)

lemma fetch_definitions_cached:
  assumes "FIELD_DEFINITIONS_CACHE st = Some cached"
  shows "fetch_custom_field_definitions server st = (Inr cached, st)"
  using assms by (simp add: fetch_custom_field_definitions_def)

lemma fetch_definitions_200:
  assumes "FIELD_DEFINITIONS_CACHE st = None"
    and "server GetFieldDefinitions = Inr response"
    and "status_code response = 200" and "json response = Some definitions"
    and "build_definition_map definitions = Inr definition_map"
  shows "fetch_custom_field_definitions server st =
           (Inr definition_map,
            st\<lparr>issued := issued st @ [GetFieldDefinitions],
               FIELD_DEFINITIONS_CACHE := Some definition_map\<rparr>)"
  using assms by (simp add: fetch_custom_field_definitions_def)

lemma fetch_definitions_error:
  assumes "FIELD_DEFINITIONS_CACHE st = None"
    and "server GetFieldDefinitions = Inr response"
    and "status_code response \<noteq> 200"
  shows "fetch_custom_field_definitions server st =
           (Inr Map.empty, st\<lparr>issued := issued st @ [GetFieldDefinitions]\<rparr>)"
  using assms by (simp add: fetch_custom_field_definitions_def)

lemma fetch_definitions_stores:
  assumes "fetch_custom_field_definitions server st = (res, st')"
    and "FIELD_DEFINITIONS_CACHE st' \<noteq> FIELD_DEFINITIONS_CACHE st"
  shows "\<exists>response definitions definition_map.
           server GetFieldDefinitions = Inr response \<and> status_code response = 200
           \<and> json response = Some definitions
           \<and> build_definition_map definitions = Inr definition_map
           \<and> res = Inr definition_map
           \<and> FIELD_DEFINITIONS_CACHE st' = Some definition_map"
  using assms
  by (auto simp: fetch_custom_field_definitions_def Let_def
        split: if_splits option.splits sum.splits)

lemma fetch_lead_details_unparsable:
  assumes "hashable lead_id" and "LEAD_DETAILS_CACHE st (dict_key lead_id) = None"
    and "server (GetLeadDetails lead_id) = Inr response"
    and "status_code response = 200" and "json response = None"
  shows "fetch_lead_details server lead_id st =
           (Inl JSONDecodeError, st\<lparr>issued := issued st @ [GetLeadDetails lead_id]\<rparr>)"
  using assms by (simp add: fetch_lead_details_def)

lemma fetch_lead_details_request_raises:
  assumes "hashable lead_id" and "LEAD_DETAILS_CACHE st (dict_key lead_id) = None"
    and "server (GetLeadDetails lead_id) = Inl e"
  shows "fetch_lead_details server lead_id st =
           (Inl e, st\<lparr>issued := issued st @ [GetLeadDetails lead_id]\<rparr>)"
  using assms by (simp add: fetch_lead_details_def)

lemma fetch_definitions_unparsable:
  assumes "FIELD_DEFINITIONS_CACHE st = None"
    and "server GetFieldDefinitions = Inr response"
    and "status_code response = 200" and "json response = None"
  shows "fetch_custom_field_definitions server st =
           (Inl JSONDecodeError, st\<lparr>issued := issued st @ [GetFieldDefinitions]\<rparr>)"
  using assms by (simp add: fetch_custom_field_definitions_def)

lemma fetch_definitions_request_raises:
  assumes "FIELD_DEFINITIONS_CACHE st = None"
    and "server GetFieldDefinitions = Inl e"
  shows "fetch_custom_field_definitions server st =
           (Inl e, st\<lparr>issued := issued st @ [GetFieldDefinitions]\<rparr>)"
  using assms by (simp add: fetch_custom_field_definitions_def)

lemma definition_map_loop_entries:
  "list_all definition_ok ds \<Longrightarrow>
     definition_map_loop m ds = Inr (m ++ map_of (rev (map definition_entry ds)))"
proof (induction ds arbitrary: m)
  case Nil
  show ?case by simp
next
  case (Cons d ds)
  from Cons.prems obtain kv where d: "d = PDict kv" and key: "hashable (dict_get kv ''id'' PNone)"
    by (cases d) (simp_all add: definition_ok_def)
  from Cons.prems have rest: "list_all definition_ok ds"
    by simp
  have entry: "definition_entry d = (dict_key (dict_get kv ''id'' PNone), dict_get kv ''name'' PNone)"
    by (simp add: d definition_entry_def)
  have "definition_map_loop m (d # ds) =
          definition_map_loop (m(dict_key (dict_get kv ''id'' PNone) \<mapsto> dict_get kv ''name'' PNone)) ds"
    by (simp add: d key)
  also have "\<dots> = Inr (m(dict_key (dict_get kv ''id'' PNone) \<mapsto> dict_get kv ''name'' PNone)
                        ++ map_of (rev (map definition_entry ds)))"
    by (rule Cons.IH [OF rest])
  also have "m(dict_key (dict_get kv ''id'' PNone) \<mapsto> dict_get kv ''name'' PNone)
               ++ map_of (rev (map definition_entry ds))
             = m ++ map_of (rev (map definition_entry (d # ds)))"
    by (simp add: entry map_add_assoc [symmetric] map_add_upd_left)
  finally show ?case .
qed

lemma definition_map_loop_fails:
  "\<not> list_all definition_ok ds \<Longrightarrow> \<exists>e. definition_map_loop m ds = Inl e"
proof (induction ds arbitrary: m)
  case Nil
  then show ?case by simp
next
  case (Cons d ds)
  show ?case
  proof (cases "definition_ok d")
    case True
    then obtain kv where "d = PDict kv" and "hashable (dict_get kv ''id'' PNone)"
      by (cases d) (simp_all add: definition_ok_def)
    moreover from True Cons.prems have "\<not> list_all definition_ok ds"
      by simp
    ultimately show ?thesis
      using Cons.IH by simp
  next
    case False
    then show ?thesis
      by (cases d) (simp_all add: definition_ok_def)
  qed
qed

lemma build_definition_map_list:
  "list_all definition_ok ds \<Longrightarrow> build_definition_map (PList ds) = Inr (id_to_name ds)"
  by (simp add: build_definition_map_def has_len_def py_iter_def definition_map_loop_entries
        id_to_name_def)

lemma build_definition_map_list_fails:
  "\<not> list_all definition_ok ds \<Longrightarrow> \<exists>e. build_definition_map (PList ds) = Inl e"
  using definition_map_loop_fails [of ds Map.empty]
  by (simp add: build_definition_map_def has_len_def py_iter_def)

lemma fetch_definitions_list:
  assumes "FIELD_DEFINITIONS_CACHE st = None"
    and "server GetFieldDefinitions = Inr response"
    and "status_code response = 200" and "json response = Some (PList ds)"
    and "list_all definition_ok ds"
  shows "fetch_custom_field_definitions server st =
           (Inr (id_to_name ds),
            st\<lparr>issued := issued st @ [GetFieldDefinitions],
               FIELD_DEFINITIONS_CACHE := Some (id_to_name ds)\<rparr>)"
  using assms(1-4) build_definition_map_list [OF assms(5)]
  by (rule fetch_definitions_200)

lemma fetch_definitions_list_fails:
  assumes "FIELD_DEFINITIONS_CACHE st = None"
    and "server GetFieldDefinitions = Inr response"
    and "status_code response = 200" and "json response = Some (PList ds)"
    and "\<not> list_all definition_ok ds"
  shows "\<exists>e. fetch_custom_field_definitions server st =
           (Inl e, st\<lparr>issued := issued st @ [GetFieldDefinitions]\<rparr>)"
proof -
  from build_definition_map_list_fails [OF assms(5)]
  obtain e where "build_definition_map (PList ds) = Inl e" ..
  with assms(1-4) show ?thesis
    by (simp add: fetch_custom_field_definitions_def)
qed

lemma build_definition_map_other:
  assumes "\<forall>ds. parsed \<noteq> PList ds"
  shows "if parsed = PDict [] \<or> parsed = PStr []
         then build_definition_map parsed = Inr Map.empty
         else (\<exists>e. build_definition_map parsed = Inl e)"
proof (cases parsed)
  case (PStr s)
  then show ?thesis
    by (cases s) (simp_all add: build_definition_map_def has_len_def py_iter_def)
next
  case (PDict kvs)
  then show ?thesis
    by (cases kvs) (simp_all add: build_definition_map_def has_len_def py_iter_def)
next
  case (PList ds)
  with assms show ?thesis by simp
qed (simp_all add: build_definition_map_def has_len_def)

lemma fetch_definitions_other:
  assumes "FIELD_DEFINITIONS_CACHE st = None"
    and "server GetFieldDefinitions = Inr response"
    and "status_code response = 200" and "json response = Some parsed"
    and "\<forall>ds. parsed \<noteq> PList ds"
  shows "if parsed = PDict [] \<or> parsed = PStr []
         then fetch_custom_field_definitions server st =
                (Inr Map.empty,
                 st\<lparr>issued := issued st @ [GetFieldDefinitions],
                    FIELD_DEFINITIONS_CACHE := Some Map.empty\<rparr>)
         else (\<exists>e. fetch_custom_field_definitions server st =
                 (Inl e, st\<lparr>issued := issued st @ [GetFieldDefinitions]\<rparr>))"
proof (cases "parsed = PDict [] \<or> parsed = PStr []")
  case True
  with build_definition_map_other [OF assms(5)]
  have "build_definition_map parsed = Inr Map.empty"
    by simp
  with assms(1-4) True show ?thesis
    by (simp add: fetch_definitions_200)
next
  case False
  with build_definition_map_other [OF assms(5)]
  obtain e where "build_definition_map parsed = Inl e"
    by auto
  with assms(1-4) False show ?thesis
    by (simp add: fetch_custom_field_definitions_def)
qed

lemma fetch_lead_details_stores_parsed:
  assumes "LEAD_DETAILS_CACHE (snd (fetch_lead_details server lead_id st)) \<noteq> LEAD_DETAILS_CACHE st"
  shows "\<exists>r lead_details.
           server (GetLeadDetails lead_id) = Inr r \<and> status_code r = 200
           \<and> json r = Some lead_details
           \<and> fst (fetch_lead_details server lead_id st) = Inr lead_details
           \<and> LEAD_DETAILS_CACHE (snd (fetch_lead_details server lead_id st))
               = (LEAD_DETAILS_CACHE st)(dict_key lead_id \<mapsto> lead_details)"
proof -
  obtain res st' where run: "fetch_lead_details server lead_id st = (res, st')"
    by (cases "fetch_lead_details server lead_id st")
  with assms have "LEAD_DETAILS_CACHE st' \<noteq> LEAD_DETAILS_CACHE st"
    by simp
  from fetch_lead_details_stores [OF run this] run show ?thesis
    by auto
qed

lemma fetch_definitions_stores_parsed:
  assumes "FIELD_DEFINITIONS_CACHE (snd (fetch_custom_field_definitions server st))
             \<noteq> FIELD_DEFINITIONS_CACHE st"
  shows "\<exists>r definitions definition_map.
           server GetFieldDefinitions = Inr r \<and> status_code r = 200
           \<and> json r = Some definitions
           \<and> fst (fetch_custom_field_definitions server st) = Inr definition_map
           \<and> FIELD_DEFINITIONS_CACHE (snd (fetch_custom_field_definitions server st))
               = Some definition_map"
proof -
  obtain res st' where run: "fetch_custom_field_definitions server st = (res, st')"
    by (cases "fetch_custom_field_definitions server st")
  with assms have "FIELD_DEFINITIONS_CACHE st' \<noteq> FIELD_DEFINITIONS_CACHE st"
    by simp
  from fetch_definitions_stores [OF run this] run show ?thesis
    by auto
qed

text \<open>
  C9, as amended. A lookup whose key is cached returns the cached value and leaves the
  state as it is: no request is issued. On a miss one request is issued. With status 200
  and a body that parses, the parsed response is stored and returned (for the field
  definitions, the map from each id to its name, when the body is a list of objects
  with hashable ids, and the empty map for an empty string or object), and every later
  lookup of the key returns it without a request, whatever the CRM would answer. With
  status 200 and a body that does not parse, or that holds anything else than such
  definitions, the exception propagates and nothing is stored; so it is when the
  request itself raises. With any other status the empty
  placeholder is returned and nothing is stored. A call changes a cache only by storing
  the parsed body of a response with status 200.
\<close>

theorem caches_hold_successful_fetches:
  "(hashable lead_id \<and> LEAD_DETAILS_CACHE st (dict_key lead_id) = Some cached \<longrightarrow>
      fetch_lead_details server lead_id st = (Inr cached, st))
   \<and> (hashable lead_id \<and> LEAD_DETAILS_CACHE st (dict_key lead_id) = None
        \<and> server (GetLeadDetails lead_id) = Inr response \<longrightarrow>
        (status_code response = 200 \<and> json response = Some lead_details \<longrightarrow>
           fetch_lead_details server lead_id st =
             (Inr lead_details,
              st\<lparr>issued := issued st @ [GetLeadDetails lead_id],
                 LEAD_DETAILS_CACHE := (LEAD_DETAILS_CACHE st)(dict_key lead_id \<mapsto> lead_details)\<rparr>)
           \<and> (\<forall>later. fetch_lead_details later lead_id (snd (fetch_lead_details server lead_id st)) =
                  (Inr lead_details, snd (fetch_lead_details server lead_id st))))
        \<and> (status_code response = 200 \<and> json response = None \<longrightarrow>
             fetch_lead_details server lead_id st =
               (Inl JSONDecodeError, st\<lparr>issued := issued st @ [GetLeadDetails lead_id]\<rparr>))
        \<and> (status_code response \<noteq> 200 \<longrightarrow>
             fetch_lead_details server lead_id st =
               (Inr (PDict []), st\<lparr>issued := issued st @ [GetLeadDetails lead_id]\<rparr>)))
   \<and> (hashable lead_id \<and> LEAD_DETAILS_CACHE st (dict_key lead_id) = None
        \<and> server (GetLeadDetails lead_id) = Inl e \<longrightarrow>
        fetch_lead_details server lead_id st =
          (Inl e, st\<lparr>issued := issued st @ [GetLeadDetails lead_id]\<rparr>))
   \<and> (LEAD_DETAILS_CACHE (snd (fetch_lead_details server lead_id st)) \<noteq> LEAD_DETAILS_CACHE st \<longrightarrow>
        (\<exists>r parsed. server (GetLeadDetails lead_id) = Inr r \<and> status_code r = 200
           \<and> json r = Some parsed
           \<and> fst (fetch_lead_details server lead_id st) = Inr parsed
           \<and> LEAD_DETAILS_CACHE (snd (fetch_lead_details server lead_id st))
               = (LEAD_DETAILS_CACHE st)(dict_key lead_id \<mapsto> parsed)))
   \<and> (FIELD_DEFINITIONS_CACHE st = Some cached_map \<longrightarrow>
        fetch_custom_field_definitions server st = (Inr cached_map, st))
   \<and> (FIELD_DEFINITIONS_CACHE st = None \<and> server GetFieldDefinitions = Inr response' \<longrightarrow>
        (status_code response' = 200 \<and> json response' = Some (PList definitions)
           \<and> list_all definition_ok definitions \<longrightarrow>
           fetch_custom_field_definitions server st =
             (Inr (id_to_name definitions),
              st\<lparr>issued := issued st @ [GetFieldDefinitions],
                 FIELD_DEFINITIONS_CACHE := Some (id_to_name definitions)\<rparr>)
           \<and> (\<forall>later. fetch_custom_field_definitions later
                         (snd (fetch_custom_field_definitions server st)) =
                  (Inr (id_to_name definitions), snd (fetch_custom_field_definitions server st))))
        \<and> (status_code response' = 200 \<and> json response' = Some (PList definitions)
             \<and> \<not> list_all definition_ok definitions \<longrightarrow>
             (\<exists>raised. fetch_custom_field_definitions server st =
                (Inl raised, st\<lparr>issued := issued st @ [GetFieldDefinitions]\<rparr>)))
        \<and> (status_code response' = 200 \<and> json response' = Some other
             \<and> (other = PDict [] \<or> other = PStr []) \<longrightarrow>
             fetch_custom_field_definitions server st =
               (Inr Map.empty,
                st\<lparr>issued := issued st @ [GetFieldDefinitions],
                   FIELD_DEFINITIONS_CACHE := Some Map.empty\<rparr>))
        \<and> (status_code response' = 200 \<and> json response' = Some other
             \<and> (\<forall>ds. other \<noteq> PList ds) \<and> other \<noteq> PDict [] \<and> other \<noteq> PStr [] \<longrightarrow>
             (\<exists>raised. fetch_custom_field_definitions server st =
                (Inl raised, st\<lparr>issued := issued st @ [GetFieldDefinitions]\<rparr>)))
        \<and> (status_code response' = 200 \<and> json response' = None \<longrightarrow>
             fetch_custom_field_definitions server st =
               (Inl JSONDecodeError, st\<lparr>issued := issued st @ [GetFieldDefinitions]\<rparr>))
        \<and> (status_code response' \<noteq> 200 \<longrightarrow>
             fetch_custom_field_definitions server st =
               (Inr Map.empty, st\<lparr>issued := issued st @ [GetFieldDefinitions]\<rparr>)))
   \<and> (FIELD_DEFINITIONS_CACHE st = None \<and> server GetFieldDefinitions = Inl e \<longrightarrow>
        fetch_custom_field_definitions server st =
          (Inl e, st\<lparr>issued := issued st @ [GetFieldDefinitions]\<rparr>))
   \<and> (FIELD_DEFINITIONS_CACHE (snd (fetch_custom_field_definitions server st))
          \<noteq> FIELD_DEFINITIONS_CACHE st \<longrightarrow>
        (\<exists>r parsed stored. server GetFieldDefinitions = Inr r \<and> status_code r = 200
           \<and> json r = Some parsed
           \<and> fst (fetch_custom_field_definitions server st) = Inr stored
           \<and> FIELD_DEFINITIONS_CACHE (snd (fetch_custom_field_definitions server st)) = Some stored))"
proof (intro conjI impI allI)
  assume "hashable lead_id \<and> LEAD_DETAILS_CACHE st (dict_key lead_id) = Some cached"
  then show "fetch_lead_details server lead_id st = (Inr cached, st)"
    by (simp add: fetch_lead_details_cached)
next
  assume miss: "hashable lead_id \<and> LEAD_DETAILS_CACHE st (dict_key lead_id) = None
                \<and> server (GetLeadDetails lead_id) = Inr response"
    and ok: "status_code response = 200 \<and> json response = Some lead_details"
  then show stored: "fetch_lead_details server lead_id st =
             (Inr lead_details,
              st\<lparr>issued := issued st @ [GetLeadDetails lead_id],
                 LEAD_DETAILS_CACHE := (LEAD_DETAILS_CACHE st)(dict_key lead_id \<mapsto> lead_details)\<rparr>)"
    by (simp add: fetch_lead_details_200)
  fix later
  from miss show "fetch_lead_details later lead_id (snd (fetch_lead_details server lead_id st)) =
                  (Inr lead_details, snd (fetch_lead_details server lead_id st))"
    unfolding stored by (simp add: fetch_lead_details_cached)
next
  assume "hashable lead_id \<and> LEAD_DETAILS_CACHE st (dict_key lead_id) = None
          \<and> server (GetLeadDetails lead_id) = Inr response"
    and "status_code response = 200 \<and> json response = None"
  then show "fetch_lead_details server lead_id st =
               (Inl JSONDecodeError, st\<lparr>issued := issued st @ [GetLeadDetails lead_id]\<rparr>)"
    by (simp add: fetch_lead_details_unparsable)
next
  assume "hashable lead_id \<and> LEAD_DETAILS_CACHE st (dict_key lead_id) = None
          \<and> server (GetLeadDetails lead_id) = Inr response"
    and "status_code response \<noteq> 200"
  then show "fetch_lead_details server lead_id st =
               (Inr (PDict []), st\<lparr>issued := issued st @ [GetLeadDetails lead_id]\<rparr>)"
    by (simp add: fetch_lead_details_error)
next
  assume "hashable lead_id \<and> LEAD_DETAILS_CACHE st (dict_key lead_id) = None
          \<and> server (GetLeadDetails lead_id) = Inl e"
  then show "fetch_lead_details server lead_id st =
          (Inl e, st\<lparr>issued := issued st @ [GetLeadDetails lead_id]\<rparr>)"
    by (simp add: fetch_lead_details_request_raises)
next
  assume "LEAD_DETAILS_CACHE (snd (fetch_lead_details server lead_id st)) \<noteq> LEAD_DETAILS_CACHE st"
  then show "\<exists>r parsed. server (GetLeadDetails lead_id) = Inr r \<and> status_code r = 200
           \<and> json r = Some parsed
           \<and> fst (fetch_lead_details server lead_id st) = Inr parsed
           \<and> LEAD_DETAILS_CACHE (snd (fetch_lead_details server lead_id st))
               = (LEAD_DETAILS_CACHE st)(dict_key lead_id \<mapsto> parsed)"
    by (rule fetch_lead_details_stores_parsed)
next
  assume "FIELD_DEFINITIONS_CACHE st = Some cached_map"
  then show "fetch_custom_field_definitions server st = (Inr cached_map, st)"
    by (rule fetch_definitions_cached)
next
  assume miss: "FIELD_DEFINITIONS_CACHE st = None \<and> server GetFieldDefinitions = Inr response'"
    and ok: "status_code response' = 200 \<and> json response' = Some (PList definitions)
             \<and> list_all definition_ok definitions"
  then show stored: "fetch_custom_field_definitions server st =
             (Inr (id_to_name definitions),
              st\<lparr>issued := issued st @ [GetFieldDefinitions],
                 FIELD_DEFINITIONS_CACHE := Some (id_to_name definitions)\<rparr>)"
    by (simp add: fetch_definitions_list)
  fix later
  show "fetch_custom_field_definitions later (snd (fetch_custom_field_definitions server st)) =
          (Inr (id_to_name definitions), snd (fetch_custom_field_definitions server st))"
    unfolding stored by (simp add: fetch_definitions_cached)
next
  assume "FIELD_DEFINITIONS_CACHE st = None \<and> server GetFieldDefinitions = Inr response'"
    and "status_code response' = 200 \<and> json response' = Some (PList definitions)
         \<and> \<not> list_all definition_ok definitions"
  then show "\<exists>raised. fetch_custom_field_definitions server st =
                (Inl raised, st\<lparr>issued := issued st @ [GetFieldDefinitions]\<rparr>)"
    using fetch_definitions_list_fails by blast
next
  assume "FIELD_DEFINITIONS_CACHE st = None \<and> server GetFieldDefinitions = Inr response'"
    and a: "status_code response' = 200 \<and> json response' = Some other
         \<and> (other = PDict [] \<or> other = PStr [])"
  then have "FIELD_DEFINITIONS_CACHE st = None" and "server GetFieldDefinitions = Inr response'"
    and "status_code response' = 200" and "json response' = Some other"
    and "\<forall>ds. other \<noteq> PList ds"
    by auto
  then have "if other = PDict [] \<or> other = PStr []
              then fetch_custom_field_definitions server st =
                     (Inr Map.empty,
                      st\<lparr>issued := issued st @ [GetFieldDefinitions],
                         FIELD_DEFINITIONS_CACHE := Some Map.empty\<rparr>)
              else (\<exists>raised. fetch_custom_field_definitions server st =
                      (Inl raised, st\<lparr>issued := issued st @ [GetFieldDefinitions]\<rparr>))"
    by (rule fetch_definitions_other)
  with a show "fetch_custom_field_definitions server st =
               (Inr Map.empty,
                st\<lparr>issued := issued st @ [GetFieldDefinitions],
                   FIELD_DEFINITIONS_CACHE := Some Map.empty\<rparr>)"
    by simp
next
  assume "FIELD_DEFINITIONS_CACHE st = None \<and> server GetFieldDefinitions = Inr response'"
    and a: "status_code response' = 200 \<and> json response' = Some other
         \<and> (\<forall>ds. other \<noteq> PList ds) \<and> other \<noteq> PDict [] \<and> other \<noteq> PStr []"
  then have "FIELD_DEFINITIONS_CACHE st = None" and "server GetFieldDefinitions = Inr response'"
    and "status_code response' = 200" and "json response' = Some other"
    and "\<forall>ds. other \<noteq> PList ds"
    by simp_all
  then have "if other = PDict [] \<or> other = PStr []
              then fetch_custom_field_definitions server st =
                     (Inr Map.empty,
                      st\<lparr>issued := issued st @ [GetFieldDefinitions],
                         FIELD_DEFINITIONS_CACHE := Some Map.empty\<rparr>)
              else (\<exists>raised. fetch_custom_field_definitions server st =
                      (Inl raised, st\<lparr>issued := issued st @ [GetFieldDefinitions]\<rparr>))"
    by (rule fetch_definitions_other)
  with a show "\<exists>raised. fetch_custom_field_definitions server st =
                (Inl raised, st\<lparr>issued := issued st @ [GetFieldDefinitions]\<rparr>)"
    by simp
next
  assume "FIELD_DEFINITIONS_CACHE st = None \<and> server GetFieldDefinitions = Inr response'"
    and "status_code response' = 200 \<and> json response' = None"
  then show "fetch_custom_field_definitions server st =
               (Inl JSONDecodeError, st\<lparr>issued := issued st @ [GetFieldDefinitions]\<rparr>)"
    by (simp add: fetch_definitions_unparsable)
next
  assume "FIELD_DEFINITIONS_CACHE st = None \<and> server GetFieldDefinitions = Inr response'"
    and "status_code response' \<noteq> 200"
  then show "fetch_custom_field_definitions server st =
               (Inr Map.empty, st\<lparr>issued := issued st @ [GetFieldDefinitions]\<rparr>)"
    by (simp add: fetch_definitions_error)
next
  assume "FIELD_DEFINITIONS_CACHE st = None \<and> server GetFieldDefinitions = Inl e"
  then show "fetch_custom_field_definitions server st =
          (Inl e, st\<lparr>issued := issued st @ [GetFieldDefinitions]\<rparr>)"
    by (simp add: fetch_definitions_request_raises)
next
  assume "FIELD_DEFINITIONS_CACHE (snd (fetch_custom_field_definitions server st))
            \<noteq> FIELD_DEFINITIONS_CACHE st"
  then show "\<exists>r parsed stored. server GetFieldDefinitions = Inr r \<and> status_code r = 200
           \<and> json r = Some parsed
           \<and> fst (fetch_custom_field_definitions server st) = Inr stored
           \<and> FIELD_DEFINITIONS_CACHE (snd (fetch_custom_field_definitions server st)) = Some stored"
    by (rule fetch_definitions_stores_parsed)
qed

lemma ok_server_lead:
  "ok_server (GetLeadDetails (PNum 42)) = Inr \<lparr>status_code = 200, json = Some lead_42, body_text = []\<rparr>"
  by (simp add: ok_server_def lead_42_def)

lemma ok_server_definitions:
  "ok_server GetFieldDefinitions =
     Inr \<lparr>status_code = 200, json = Some (PList stage_definition_list), body_text = []\<rparr>"
  by (simp add: ok_server_def stage_definition_list_def)

lemma failing_server_response:
  "failing_server req = Inr \<lparr>status_code = 500, json = None, body_text = ''Internal Server Error''\<rparr>"
  by (simp add: failing_server_def)

lemma initial_state_miss:
  "hashable (PNum 42)" "LEAD_DETAILS_CACHE initial_state (dict_key (PNum 42)) = None"
  "FIELD_DEFINITIONS_CACHE initial_state = None"
  by (simp_all add: hashable_def initial_state_def dict_key_def)

lemma stage_definition_list_ok: "list_all definition_ok stage_definition_list"
  by (simp add: stage_definition_list_def definition_ok_def dict_get_def hashable_def)

lemma id_to_name_stage: "id_to_name stage_definition_list = stage_definitions"
  by (simp add: id_to_name_def stage_definition_list_def definition_entry_def dict_get_def
        dict_key_def stage_definitions_def)

theorem caches_hold_successful_fetches_witness:
  "fetch_lead_details ok_server (PNum 42) initial_state =
     (Inr lead_42,
      initial_state\<lparr>issued := issued initial_state @ [GetLeadDetails (PNum 42)],
                    LEAD_DETAILS_CACHE :=
                      (LEAD_DETAILS_CACHE initial_state)(dict_key (PNum 42) \<mapsto> lead_42)\<rparr>)
   \<and> fetch_lead_details failing_server (PNum 42)
         (snd (fetch_lead_details ok_server (PNum 42) initial_state)) =
       (Inr lead_42, snd (fetch_lead_details ok_server (PNum 42) initial_state))
   \<and> fetch_lead_details failing_server (PNum 42) initial_state =
       (Inr (PDict []), initial_state\<lparr>issued := issued initial_state @ [GetLeadDetails (PNum 42)]\<rparr>)
   \<and> fetch_custom_field_definitions ok_server initial_state =
       (Inr stage_definitions,
        initial_state\<lparr>issued := issued initial_state @ [GetFieldDefinitions],
                      FIELD_DEFINITIONS_CACHE := Some stage_definitions\<rparr>)
   \<and> stage_definitions (PNum 7) = Some (PStr ''Stage'')
   \<and> fetch_custom_field_definitions failing_server
         (snd (fetch_custom_field_definitions ok_server initial_state)) =
       (Inr stage_definitions, snd (fetch_custom_field_definitions ok_server initial_state))
   \<and> fetch_custom_field_definitions failing_server initial_state =
       (Inr Map.empty, initial_state\<lparr>issued := issued initial_state @ [GetFieldDefinitions]\<rparr>)"
proof -
  note ok = caches_hold_successful_fetches
    [where lead_id = "PNum 42" and st = initial_state and server = ok_server
       and response = "\<lparr>status_code = 200, json = Some lead_42, body_text = []\<rparr>"
       and lead_details = lead_42
       and response' = "\<lparr>status_code = 200, json = Some (PList stage_definition_list), body_text = []\<rparr>"
       and definitions = stage_definition_list]
  note ok_lead = ok [THEN conjunct2, THEN conjunct1]
  note ok_definitions =
    ok [THEN conjunct2, THEN conjunct2, THEN conjunct2, THEN conjunct2, THEN conjunct2,
        THEN conjunct1]
  note failing = caches_hold_successful_fetches
    [where lead_id = "PNum 42" and st = initial_state and server = failing_server
       and response = "\<lparr>status_code = 500, json = None, body_text = ''Internal Server Error''\<rparr>"
       and response' = "\<lparr>status_code = 500, json = None, body_text = ''Internal Server Error''\<rparr>"]
  note failing_lead = failing [THEN conjunct2, THEN conjunct1]
  note failing_definitions =
    failing [THEN conjunct2, THEN conjunct2, THEN conjunct2, THEN conjunct2, THEN conjunct2,
             THEN conjunct1]
  have fields_ok: "status_code \<lparr>status_code = 200, json = Some lead_42, body_text = []\<rparr> = 200"
    "json \<lparr>status_code = 200, json = Some lead_42, body_text = []\<rparr> = Some lead_42"
    "status_code \<lparr>status_code = 200, json = Some (PList stage_definition_list), body_text = []\<rparr> = 200"
    "json \<lparr>status_code = 200, json = Some (PList stage_definition_list), body_text = []\<rparr>
       = Some (PList stage_definition_list)"
    by simp_all
  have fields_failing:
    "status_code \<lparr>status_code = 500, json = None, body_text = ''Internal Server Error''\<rparr> \<noteq> 200"
    by simp
  from ok_lead initial_state_miss ok_server_lead fields_ok
  have stored: "fetch_lead_details ok_server (PNum 42) initial_state =
     (Inr lead_42,
      initial_state\<lparr>issued := issued initial_state @ [GetLeadDetails (PNum 42)],
                    LEAD_DETAILS_CACHE :=
                      (LEAD_DETAILS_CACHE initial_state)(dict_key (PNum 42) \<mapsto> lead_42)\<rparr>)"
    by blast
  from ok_lead initial_state_miss ok_server_lead fields_ok
  have later: "\<forall>later. fetch_lead_details later (PNum 42)
                   (snd (fetch_lead_details ok_server (PNum 42) initial_state)) =
                 (Inr lead_42, snd (fetch_lead_details ok_server (PNum 42) initial_state))"
    by blast
  from failing_lead initial_state_miss failing_server_response [of "GetLeadDetails (PNum 42)"]
    fields_failing
  have placeholder: "fetch_lead_details failing_server (PNum 42) initial_state =
       (Inr (PDict []), initial_state\<lparr>issued := issued initial_state @ [GetLeadDetails (PNum 42)]\<rparr>)"
    by blast
  from ok_definitions initial_state_miss ok_server_definitions fields_ok
    stage_definition_list_ok
  have "fetch_custom_field_definitions ok_server initial_state =
       (Inr (id_to_name stage_definition_list),
        initial_state\<lparr>issued := issued initial_state @ [GetFieldDefinitions],
                      FIELD_DEFINITIONS_CACHE := Some (id_to_name stage_definition_list)\<rparr>)"
    by blast
  then have stored': "fetch_custom_field_definitions ok_server initial_state =
       (Inr stage_definitions,
        initial_state\<lparr>issued := issued initial_state @ [GetFieldDefinitions],
                      FIELD_DEFINITIONS_CACHE := Some stage_definitions\<rparr>)"
    by (simp only: id_to_name_stage)
  from ok_definitions initial_state_miss ok_server_definitions fields_ok
    stage_definition_list_ok
  have "\<forall>later. fetch_custom_field_definitions later
                   (snd (fetch_custom_field_definitions ok_server initial_state)) =
                 (Inr (id_to_name stage_definition_list),
                  snd (fetch_custom_field_definitions ok_server initial_state))"
    by blast
  then have later': "\<forall>later. fetch_custom_field_definitions later
                   (snd (fetch_custom_field_definitions ok_server initial_state)) =
                 (Inr stage_definitions, snd (fetch_custom_field_definitions ok_server initial_state))"
    unfolding id_to_name_stage .
  from failing_definitions initial_state_miss failing_server_response [of GetFieldDefinitions]
    fields_failing
  have placeholder': "fetch_custom_field_definitions failing_server initial_state =
       (Inr Map.empty, initial_state\<lparr>issued := issued initial_state @ [GetFieldDefinitions]\<rparr>)"
    by blast
  have name: "stage_definitions (PNum 7) = Some (PStr ''Stage'')"
    by (simp add: stage_definitions_def)
  from stored later placeholder stored' name later' placeholder' show ?thesis
    by blast
qed

text \<open>
  A response with status 200 whose body is not JSON: parsing raises, the exception
  propagates, and neither cache stores anything.
\<close>

theorem caches_counterexample:
  "garbled_server (GetLeadDetails (PNum 42))
     = Inr \<lparr>status_code = 200, json = None, body_text = ''<html>''\<rparr>
   \<and> fetch_lead_details garbled_server (PNum 42) initial_state
       = (Inl JSONDecodeError, initial_state\<lparr>issued := [GetLeadDetails (PNum 42)]\<rparr>)
   \<and> LEAD_DETAILS_CACHE (snd (fetch_lead_details garbled_server (PNum 42) initial_state)) (PNum 42)
       = None
   \<and> fetch_custom_field_definitions garbled_server initial_state
       = (Inl JSONDecodeError, initial_state\<lparr>issued := [GetFieldDefinitions]\<rparr>)
   \<and> FIELD_DEFINITIONS_CACHE (snd (fetch_custom_field_definitions garbled_server initial_state))
       = None"
proof -
  have server: "garbled_server req = Inr \<lparr>status_code = 200, json = None, body_text = ''<html>''\<rparr>"
    for req
    by (simp add: garbled_server_def)
  have lead: "fetch_lead_details garbled_server (PNum 42) initial_state
       = (Inl JSONDecodeError, initial_state\<lparr>issued := [GetLeadDetails (PNum 42)]\<rparr>)"
    by (simp add: fetch_lead_details_def server hashable_def dict_key_def initial_state_def)
  have definitions: "fetch_custom_field_definitions garbled_server initial_state
       = (Inl JSONDecodeError, initial_state\<lparr>issued := [GetFieldDefinitions]\<rparr>)"
    by (simp add: fetch_custom_field_definitions_def server initial_state_def)
  show ?thesis
    unfolding lead definitions using server by (simp add: initial_state_def)
qed

section \<open>Properties of the refresh\<close>



end
